theory Spec2Isabelle
  imports Complex_Main "HOL-Library.AList"
begin

section \<open>Python values, exceptions and the collaborators' data\<close>

text \<open>
  The module \<^verbatim>\<open>mpinterfaces/measurement.py\<close> derives a new generation of jobs from
  completed calibration objects and combines their energies. Its functions mutate the
  calibration objects, the file system and the logger, and they stop with an exception
  at several points. The model threads one \<open>world\<close> record through every function and
  returns \<open>Inl (exception, world reached)\<close> where the Python raises, so that what was
  already done before a raise stays visible.
\<close>

type_synonym path = string

datatype error =
    NameError string
  | IndexError
  | ValueError
  | KeyError string
  | TypeError
  | AttributeError string
  | IOError path
  | OSError path
  | ShutilError path path

datatype pyval = PInt int | PStr string | PInts "int list"

text \<open>A file holds either opaque bytes or the object that \<^verbatim>\<open>json.dump\<close> wrote.\<close>

datatype artifact = Data string | Json "(string \<times> pyval) list"

text \<open>A job descriptor; the module only reads its \<^verbatim>\<open>name\<close>.\<close>

datatype job = Job (name: string)

text \<open>
  The system description hanging off a calibration object. Each attribute the module
  reads may be missing (\<^verbatim>\<open>cal.system.miller_index\<close>,
  \<^verbatim>\<open>cal.system.ligand.composition.formula\<close>, \<^verbatim>\<open>cal.system.n_ligands\<close>).
\<close>

record system =
  miller_index :: "int list option"
  ligand_formula :: "string option"
  n_ligands :: "int option"

text \<open>
  Modelled from the spec: the collaborator classes of \<^verbatim>\<open>mpinterfaces.calibrate\<close> are
  not part of the sources at hand; the spec describes the role buckets as disjoint and
  decided by the declared collaborator kind, so a handle carries exactly one kind.
\<close>

datatype kind = CalibrateSlab | CalibrateInterface | CalibrateMolecule | CalibrateBulk | Calibrate

record handle =
  kind :: kind
  incar :: "string \<rightharpoonup> pyval"
  poscar :: "artifact option"
  system :: "system option"
  jobs :: "job list"
  job_dir_list :: "path list"
  old_jobs :: "job list"
  old_job_dir_list :: "path list"

datatype 'e logrec =
    Info string
  | Critical string
  | Debug_energy path 'e
  | Info_binding "(string \<times> 'e list) list"

text \<open>
  The world: calibration objects by identity (\<open>heap\<close>), the file system (\<open>files\<close>,
  \<open>dirs\<close>), the records handed to the logger, and the trace of \<^verbatim>\<open>add_job\<close> calls made
  on the collaborator (object identity and the \<^verbatim>\<open>job_dir\<close> argument). Every
  calibration object owns its lists and its input-parameter map; the energies of type
  \<open>'e\<close> are opaque to the module.
\<close>

record 'e world =
  heap :: "nat \<Rightarrow> handle"
  files :: "path \<rightharpoonup> artifact"
  dirs :: "path set"
  logged :: "'e logrec list"
  add_job_calls :: "(nat \<times> path) list"

text \<open>
  The names the module looks up in its global namespace without binding them itself:
  \<^verbatim>\<open>cal\<close> (used in \<^verbatim>\<open>Measurement.__init__\<close>; bound only when the file runs as a
  script), \<^verbatim>\<open>MPINTVaspDrone\<close> and \<^verbatim>\<open>BorgQueen\<close> (used in \<^verbatim>\<open>get_energy\<close>, never
  imported), and \<^verbatim>\<open>E_binding\<close> (used in \<^verbatim>\<open>MeasurementInterface.make_measurements\<close>,
  never assigned). A bound \<^verbatim>\<open>BorgQueen\<close> stands for drone, queen and parser together:
  it maps a directory to the entries \<^verbatim>\<open>get_data()\<close> returns after assimilating it,
  \<open>None\<close> for an entry that is falsy and \<open>Some e\<close> for one with energy \<open>e\<close>.
\<close>

record 'e namespace =
  cal :: "nat option"
  MPINTVaspDrone :: bool
  BorgQueen :: "(path \<Rightarrow> 'e option list) option"
  E_binding :: "(string \<times> 'e list) list option"

definition module_namespace :: "'e namespace" where
  "module_namespace = \<lparr>cal = None, MPINTVaspDrone = False, BorgQueen = None, E_binding = None\<rparr>"

record measurement =
  cal_objs :: "nat list"
  job_dir :: path

record measurement_solvation = measurement +
  sol_params :: "(string \<times> pyval) list"

record measurement_interface = measurement +
  cal_slabs :: "nat list"
  cal_interfaces :: "nat list"
  cal_ligands :: "nat list"

section \<open>Primitive operations\<close>

definition raised :: "(error \<times> 's) + 'a \<Rightarrow> error option" where
  "raised r = (case r of Inl (e, _) \<Rightarrow> Some e | Inr _ \<Rightarrow> None)"

definition final :: "(error \<times> 's) + 's \<Rightarrow> 's" where
  "final r = (case r of Inl (_, s) \<Rightarrow> s | Inr s \<Rightarrow> s)"

text \<open>\<^verbatim>\<open>os.sep\<close>, on the POSIX systems the simulation jobs run on.\<close>

definition os_sep :: char where
  "os_sep = CHR ''/''"

definition replace :: "char \<Rightarrow> char \<Rightarrow> string \<Rightarrow> string" where
  "replace old new s = map (\<lambda>c. if c = old then new else c) s"

text \<open>
  The path expression of lines 71--73, 138--140 and 188--190:
  \<^verbatim>\<open>self.job_dir + os.sep + name.replace(os.sep, '_').replace('.', '_') + os.sep + suffix\<close>.
\<close>

definition derived_dir :: "path \<Rightarrow> string \<Rightarrow> string \<Rightarrow> path" where
  "derived_dir base nm suffix =
     base @ [os_sep] @ replace (CHR ''.'') (CHR ''_'') (replace os_sep (CHR ''_'') nm)
       @ [os_sep] @ suffix"

definition upd :: "nat \<Rightarrow> (handle \<Rightarrow> handle) \<Rightarrow> 'e world \<Rightarrow> 'e world" where
  "upd c f w = w\<lparr>heap := (heap w)(c := f (heap w c))\<rparr>"

definition emit :: "'e logrec \<Rightarrow> 'e world \<Rightarrow> 'e world" where
  "emit r w = w\<lparr>logged := logged w @ [r]\<rparr>"

text \<open>
  \<^verbatim>\<open>Poscar.from_file\<close> (pymatgen): reading a path that is not a file raises the I/O
  error carrying that path; the parser is taken to accept every file that is there.
\<close>

definition Poscar_from_file :: "'e world \<Rightarrow> path \<Rightarrow> error + artifact" where
  "Poscar_from_file w p = (case files w p of None \<Rightarrow> Inl (IOError p) | Some f \<Rightarrow> Inr f)"

text \<open>
  Modelled from the spec: \<^verbatim>\<open>Calibrate.add_job\<close> belongs to the collaborator module,
  which is not part of the sources at hand. By the spec it registers a new job rooted
  at the directory, appending to the handle's current jobs, and creates the directory.
  The descriptor of the new job is the collaborator's business (\<open>mk\<close>).
\<close>

definition add_job :: "(path \<Rightarrow> job) \<Rightarrow> nat \<Rightarrow> path \<Rightarrow> 'e world \<Rightarrow> 'e world" where
  "add_job mk c d w =
     (upd c (\<lambda>h. h\<lparr>jobs := jobs h @ [mk d], job_dir_list := job_dir_list h @ [d]\<rparr>) w)
       \<lparr>dirs := insert d (dirs w), add_job_calls := add_job_calls w @ [(c, d)]\<rparr>"

section \<open>\<^verbatim>\<open>Measurement.__init__\<close>\<close>

text \<open>
  The loop of lines 56--60. The fourth statement reads \<^verbatim>\<open>cal.job_dir_list\<close>, a global
  name, where the other three use the loop variable \<^verbatim>\<open>obj\<close>.
\<close>

fun init_loop :: "nat option \<Rightarrow> nat list \<Rightarrow> 'e world \<Rightarrow> (error \<times> 'e world) + 'e world" where
  "init_loop g [] w = Inr w"
| "init_loop g (obj # objs) w =
     (let w1 = upd obj (\<lambda>h. h\<lparr>old_jobs := jobs h\<rparr>) w;
          w2 = upd obj (\<lambda>h. h\<lparr>jobs := []\<rparr>) w1
      in case g of
           None \<Rightarrow> Inl (NameError ''cal'', w2)
         | Some c \<Rightarrow>
             let w3 = upd obj (\<lambda>h. h\<lparr>old_job_dir_list := job_dir_list (heap w2 c)\<rparr>) w2;
                 w4 = upd obj (\<lambda>h. h\<lparr>job_dir_list := []\<rparr>) w3
             in init_loop g objs w4)"

definition Measurement_init ::
  "'e namespace \<Rightarrow> nat list \<Rightarrow> path \<Rightarrow> 'e world \<Rightarrow> (error \<times> 'e world) + (measurement \<times> 'e world)" where
  "Measurement_init ns objs jd w =
     (case init_loop (cal ns) objs w of
        Inl e \<Rightarrow> Inl e
      | Inr w' \<Rightarrow> Inr (\<lparr>cal_objs = objs, job_dir = jd\<rparr>, w'))"

section \<open>\<^verbatim>\<open>Measurement.setup\<close>\<close>

fun setup_jobs ::
  "(path \<Rightarrow> job) \<Rightarrow> path \<Rightarrow> nat \<Rightarrow> nat \<Rightarrow> path list \<Rightarrow> 'e world \<Rightarrow> (error \<times> 'e world) + 'e world" where
  "setup_jobs mk base c i [] w = Inr w"
| "setup_jobs mk base c i (jdir # jdirs) w =
     (if length (old_jobs (heap w c)) \<le> i then Inl (IndexError, w)
      else
        let jd = derived_dir base (name (old_jobs (heap w c) ! i)) ''STATIC'';
            w1 = emit (Info (''setting up job in '' @ jd)) w;
            contcar_file = jdir @ [os_sep] @ ''CONTCAR'';
            w2 = emit (Info (''setting poscar file from '' @ contcar_file)) w1
        in case Poscar_from_file w2 contcar_file of
             Inl e \<Rightarrow> Inl (e, w2)
           | Inr p \<Rightarrow>
               setup_jobs mk base c (Suc i) jdirs
                 (add_job mk c jd (upd c (\<lambda>h. h\<lparr>poscar := Some p\<rparr>) w2)))"

fun setup_loop ::
  "(path \<Rightarrow> job) \<Rightarrow> path \<Rightarrow> nat list \<Rightarrow> 'e world \<Rightarrow> (error \<times> 'e world) + 'e world" where
  "setup_loop mk base [] w = Inr w"
| "setup_loop mk base (c # cs) w =
     (let w1 = upd c (\<lambda>h. h\<lparr>incar := (incar h)(''NSW'' \<mapsto> PInt 0)\<rparr>) w
      in case setup_jobs mk base c 0 (old_job_dir_list (heap w1 c)) w1 of
           Inl e \<Rightarrow> Inl e
         | Inr w2 \<Rightarrow> setup_loop mk base cs w2)"

definition Measurement_setup ::
  "(path \<Rightarrow> job) \<Rightarrow> 'z measurement_scheme \<Rightarrow> 'e world \<Rightarrow> (error \<times> 'e world) + 'e world" where
  "Measurement_setup mk m w = setup_loop mk (job_dir m) (cal_objs m) w"


section \<open>\<^verbatim>\<open>Measurement.get_energy\<close> and \<^verbatim>\<open>Measurement.make_measurements\<close>\<close>

text \<open>The inner loop of lines 99--103: a truthy entry adds its energy and a debug record.\<close>

fun collect :: "path \<Rightarrow> 'e option list \<Rightarrow> 'e list \<times> 'e world \<Rightarrow> 'e list \<times> 'e world" where
  "collect jd [] (energies, w) = (energies, w)"
| "collect jd (None # es) (energies, w) = collect jd es (energies, w)"
| "collect jd (Some en # es) (energies, w) =
     collect jd es (energies @ [en], emit (Debug_energy jd en) w)"

fun get_energy_loop ::
  "'e namespace \<Rightarrow> path list \<Rightarrow> 'e list \<times> 'e world \<Rightarrow> (error \<times> 'e world) + ('e list \<times> 'e world)" where
  "get_energy_loop ns [] acc = Inr acc"
| "get_energy_loop ns (jd # jds) (energies, w) =
     (if \<not> MPINTVaspDrone ns then Inl (NameError ''MPINTVaspDrone'', w)
      else case BorgQueen ns of
             None \<Rightarrow> Inl (NameError ''BorgQueen'', w)
           | Some assimilate \<Rightarrow>
               get_energy_loop ns jds (collect jd (assimilate jd) (energies, w)))"

definition get_energy ::
  "'e namespace \<Rightarrow> nat \<Rightarrow> 'e world \<Rightarrow> (error \<times> 'e world) + ('e list \<times> 'e world)" where
  "get_energy ns c w = get_energy_loop ns (job_dir_list (heap w c)) ([], w)"

fun make_measurements_loop ::
  "'e namespace \<Rightarrow> nat list \<Rightarrow> 'e list list \<times> 'e world \<Rightarrow>
     (error \<times> 'e world) + ('e list list \<times> 'e world)" where
  "make_measurements_loop ns [] acc = Inr acc"
| "make_measurements_loop ns (c # cs) (energies, w) =
     (case get_energy ns c w of
        Inl e \<Rightarrow> Inl e
      | Inr (en, w') \<Rightarrow> make_measurements_loop ns cs (energies @ [en], w'))"

definition Measurement_make_measurements ::
  "'e namespace \<Rightarrow> 'z measurement_scheme \<Rightarrow> 'e world \<Rightarrow> (error \<times> 'e world) + 'e world" where
  "Measurement_make_measurements ns m w =
     (case make_measurements_loop ns (cal_objs m) ([], w) of
        Inl e \<Rightarrow> Inl e
      | Inr (_, w') \<Rightarrow> Inr w')"

section \<open>\<^verbatim>\<open>MeasurementSolvation\<close>\<close>

definition MeasurementSolvation_init ::
  "'e namespace \<Rightarrow> nat list \<Rightarrow> path \<Rightarrow> (string \<times> pyval) list \<Rightarrow> 'e world \<Rightarrow>
     (error \<times> 'e world) + (measurement_solvation \<times> 'e world)" where
  "MeasurementSolvation_init ns objs jd sp w =
     (case Measurement_init ns objs jd w of
        Inl e \<Rightarrow> Inl e
      | Inr (m, w') \<Rightarrow> Inr (\<lparr>cal_objs = cal_objs m, job_dir = job_dir m, sol_params = sp\<rparr>, w'))"

text \<open>The default of the \<^verbatim>\<open>sol_params\<close> argument, \<^verbatim>\<open>{'EB_K':80, 'TAU':0}\<close>.\<close>

definition default_sol_params :: "(string \<times> pyval) list" where
  "default_sol_params = [(''EB_K'', PInt 80), (''TAU'', PInt 0)]"

text \<open>
  \<^verbatim>\<open>for k, v in self.sol_params\<close> iterates over the keys of the dictionary and unpacks
  each key into two targets: a string key of exactly two characters yields its two
  characters, any other string raises \<^verbatim>\<open>ValueError\<close>. The dictionary is the list of
  its items in iteration order; its keys are strings, as the keys of the input file are.
\<close>

fun unpack2 :: "string \<Rightarrow> error + (string \<times> string)" where
  "unpack2 [a, b] = Inr ([a], [b])"
| "unpack2 _ = Inl ValueError"

fun sol_loop :: "nat \<Rightarrow> (string \<times> pyval) list \<Rightarrow> 'e world \<Rightarrow> (error \<times> 'e world) + 'e world" where
  "sol_loop c [] w = Inr w"
| "sol_loop c ((key, val) # items) w =
     (case unpack2 key of
        Inl e \<Rightarrow> Inl (e, w)
      | Inr (k, v) \<Rightarrow> sol_loop c items (upd c (\<lambda>h. h\<lparr>incar := (incar h)(k \<mapsto> PStr v)\<rparr>) w))"

text \<open>
  The file system: a path is a directory when it is in \<open>dirs\<close> and a regular file when
  \<open>files\<close> maps it; a path is the file it spells (links and other spellings of the same
  file are not modelled).

  \<^verbatim>\<open>os.makedirs\<close> raises \<^verbatim>\<open>OSError\<close> when the path exists, and when a regular file
  sits on the way to it, naming the first directory it could not make; otherwise it
  makes the missing ancestors, from the top, and the directory itself.
\<close>

definition path_exists :: "'e world \<Rightarrow> path \<Rightarrow> bool" where
  "path_exists w p \<longleftrightarrow> p \<in> dirs w \<or> files w p \<noteq> None"

fun ancestors_from :: "path \<Rightarrow> path \<Rightarrow> path list" where
  "ancestors_from acc [] = []"
| "ancestors_from acc (c # cs) =
     (if c = os_sep \<and> acc \<noteq> [] then [acc] else []) @ ancestors_from (acc @ [c]) cs"

definition ancestors :: "path \<Rightarrow> path list" where
  "ancestors p = ancestors_from [] p"

fun mkdirs :: "path list \<Rightarrow> 'e world \<Rightarrow> (error \<times> 'e world) + 'e world" where
  "mkdirs [] w = Inr w"
| "mkdirs (a # as) w =
     (if a \<in> dirs w then mkdirs as w
      else if files w a \<noteq> None then Inl (OSError (case as of [] \<Rightarrow> a | b # _ \<Rightarrow> b), w)
      else mkdirs as (w\<lparr>dirs := insert a (dirs w)\<rparr>))"

definition makedirs :: "path \<Rightarrow> 'e world \<Rightarrow> (error \<times> 'e world) + 'e world" where
  "makedirs p w =
     (if path_exists w p then Inl (OSError p, w) else mkdirs (ancestors p @ [p]) w)"

text \<open>
  \<^verbatim>\<open>json.dump\<close> into \<^verbatim>\<open>open(d + os.sep + fname, 'w')\<close>: opening raises \<^verbatim>\<open>IOError\<close>
  when the path is a directory or when \<open>d\<close> is not one.
\<close>

definition dump :: "path \<Rightarrow> string \<Rightarrow> (string \<times> pyval) list \<Rightarrow> 'e world \<Rightarrow> (error \<times> 'e world) + 'e world" where
  "dump d fname obj w =
     (if d @ [os_sep] @ fname \<notin> dirs w \<and> d \<in> dirs w
      then Inr (w\<lparr>files := (files w)(d @ [os_sep] @ fname \<mapsto> Json obj)\<rparr>)
      else Inl (IOError (d @ [os_sep] @ fname), w))"

definition basename :: "path \<Rightarrow> string" where
  "basename p = rev (takeWhile (\<lambda>c. c \<noteq> os_sep) (rev p))"

definition dirname :: "path \<Rightarrow> path" where
  "dirname p = rev (drop 1 (dropWhile (\<lambda>c. c \<noteq> os_sep) (rev p)))"

text \<open>
  \<^verbatim>\<open>shutil.copy(src, dst)\<close>: a destination that is a directory stands for the file of
  the source's name inside it; a source that is not a regular file raises \<^verbatim>\<open>IOError\<close>
  with the source path; a source that is the destination raises \<^verbatim>\<open>shutil.Error\<close>; a
  destination that is a directory, or whose directory is missing, raises \<^verbatim>\<open>IOError\<close>
  with the destination path.
\<close>

definition copy :: "path \<Rightarrow> path \<Rightarrow> 'e world \<Rightarrow> (error \<times> 'e world) + 'e world" where
  "copy src dst0 w =
     (let dst = (if dst0 \<in> dirs w then dst0 @ [os_sep] @ basename src else dst0)
      in case files w src of
           None \<Rightarrow> Inl (IOError src, w)
         | Some f \<Rightarrow>
             if src = dst then Inl (ShutilError src dst, w)
             else if dst \<in> dirs w \<or> dirname dst \<notin> dirs w then Inl (IOError dst, w)
             else Inr (w\<lparr>files := (files w)(dst \<mapsto> f)\<rparr>))"

text \<open>The body of the loop of lines 136--149, for one calibration object.\<close>

definition solvation_cal ::
  "(path \<Rightarrow> job) \<Rightarrow> measurement_solvation \<Rightarrow> nat \<Rightarrow> 'e world \<Rightarrow> (error \<times> 'e world) + 'e world" where
  "solvation_cal mk m c w =
     (let w1 = upd c (\<lambda>h. h\<lparr>incar := (incar h)(''LSOL'' \<mapsto> PStr ''.TRUE.'')\<rparr>) w
      in case old_jobs (heap w1 c) of
           [] \<Rightarrow> Inl (IndexError, w1)
         | j0 # _ \<Rightarrow>
             let jd = derived_dir (job_dir m) (name j0) ''SOL''
             in case sol_loop c (sol_params m) w1 of
                  Inl e \<Rightarrow> Inl e
                | Inr w2 \<Rightarrow>
                    (case (if \<not> path_exists w2 jd then makedirs jd w2 else Inr w2) of
                       Inl e \<Rightarrow> Inl e
                     | Inr w3 \<Rightarrow>
                         (case dump jd ''system.json'' (sol_params m) w3 of
                            Inl e \<Rightarrow> Inl e
                          | Inr w4 \<Rightarrow>
                              (case old_job_dir_list (heap w4 c) of
                                 [] \<Rightarrow> Inl (IndexError, w4)
                               | d0 # _ \<Rightarrow>
                                   let wavecar_file = d0 @ [os_sep] @ ''WAVECAR''
                                   in case copy wavecar_file (jd @ [os_sep] @ ''WAVECAR'') w4 of
                                        Inl e \<Rightarrow> Inl e
                                      | Inr w5 \<Rightarrow> Inr (add_job mk c jd w5)))))"

fun solvation_loop ::
  "(path \<Rightarrow> job) \<Rightarrow> measurement_solvation \<Rightarrow> nat list \<Rightarrow> 'e world \<Rightarrow> (error \<times> 'e world) + 'e world" where
  "solvation_loop mk m [] w = Inr w"
| "solvation_loop mk m (c # cs) w =
     (case solvation_cal mk m c w of
        Inl e \<Rightarrow> Inl e
      | Inr w' \<Rightarrow> solvation_loop mk m cs w')"

definition MeasurementSolvation_setup ::
  "(path \<Rightarrow> job) \<Rightarrow> measurement_solvation \<Rightarrow> 'e world \<Rightarrow> (error \<times> 'e world) + 'e world" where
  "MeasurementSolvation_setup mk m w = solvation_loop mk m (cal_objs m) w"


section \<open>\<^verbatim>\<open>MeasurementInterface\<close>\<close>

text \<open>
  Modelled from the spec: \<^verbatim>\<open>isinstance\<close> against the collaborator classes, whose
  declarations are not part of the sources at hand; a handle is an instance of its own
  declared kind only.
\<close>

definition isinstance :: "'e world \<Rightarrow> nat \<Rightarrow> kind \<Rightarrow> bool" where
  "isinstance w c k \<longleftrightarrow> kind (heap w c) = k"

fun classify :: "'e world \<Rightarrow> nat list \<Rightarrow> measurement_interface \<Rightarrow> measurement_interface" where
  "classify w [] m = m"
| "classify w (c # cs) m =
     classify w cs
       (if isinstance w c CalibrateSlab then m\<lparr>cal_slabs := cal_slabs m @ [c]\<rparr>
        else if isinstance w c CalibrateInterface then m\<lparr>cal_interfaces := cal_interfaces m @ [c]\<rparr>
        else if isinstance w c CalibrateMolecule then m\<lparr>cal_ligands := cal_ligands m @ [c]\<rparr>
        else m)"

definition MeasurementInterface_init ::
  "'e namespace \<Rightarrow> nat list \<Rightarrow> path \<Rightarrow> 'e world \<Rightarrow>
     (error \<times> 'e world) + (measurement_interface \<times> 'e world)" where
  "MeasurementInterface_init ns objs jd w =
     (case Measurement_init ns objs jd w of
        Inl e \<Rightarrow> Inl e
      | Inr (m, w') \<Rightarrow>
          Inr (classify w' (cal_objs m)
                 \<lparr>cal_objs = cal_objs m, job_dir = job_dir m,
                  cal_slabs = [], cal_interfaces = [], cal_ligands = []\<rparr>,
               w'))"

definition no_system :: string where
  "no_system = ''the calibrate object doesnt have a system set for calibrating''"

text \<open>
  The two \<^verbatim>\<open>try\<close> blocks of lines 194--202. The bare \<^verbatim>\<open>except\<close> turns a missing
  system or attribute into a critical log record and leaves \<^verbatim>\<open>d\<close> as it was.
\<close>

definition tag_hkl :: "nat \<Rightarrow> (string \<times> pyval) list \<Rightarrow> 'e world \<Rightarrow> (string \<times> pyval) list \<times> 'e world" where
  "tag_hkl c d w =
     (case system (heap w c) of
        None \<Rightarrow> (d, emit (Critical no_system) w)
      | Some s \<Rightarrow>
          (case miller_index s of
             None \<Rightarrow> (d, emit (Critical no_system) w)
           | Some hkl \<Rightarrow> (AList.update ''hkl'' (PInts hkl) d, w)))"

definition tag_ligand :: "nat \<Rightarrow> (string \<times> pyval) list \<Rightarrow> 'e world \<Rightarrow> (string \<times> pyval) list \<times> 'e world" where
  "tag_ligand c d w =
     (case system (heap w c) of
        None \<Rightarrow> (d, emit (Critical no_system) w)
      | Some s \<Rightarrow>
          (case ligand_formula s of
             None \<Rightarrow> (d, emit (Critical no_system) w)
           | Some f \<Rightarrow> (AList.update ''ligand'' (PStr f) d, w)))"

text \<open>
  The body of the inner loop of lines 187--208, for the prior directory \<open>jdir\<close> at
  index \<open>i\<close>. The dictionary \<^verbatim>\<open>d\<close> is created once, before the loop over the
  calibration objects (line 184), so it is threaded through both loops.
\<close>

definition interface_job ::
  "(path \<Rightarrow> job) \<Rightarrow> measurement_interface \<Rightarrow> nat \<Rightarrow> nat \<Rightarrow> path \<Rightarrow>
     (string \<times> pyval) list \<Rightarrow> 'e world \<Rightarrow>
     (error \<times> 'e world) + ((string \<times> pyval) list \<times> 'e world)" where
  "interface_job mk m c i jdir d w =
     (if length (old_jobs (heap w c)) \<le> i then Inl (IndexError, w)
      else
        let jd = derived_dir (job_dir m) (name (old_jobs (heap w c) ! i)) ''STATIC'';
            contcar_file = jdir @ [os_sep] @ ''CONTCAR''
        in case Poscar_from_file w contcar_file of
             Inl e \<Rightarrow> Inl (e, w)
           | Inr p \<Rightarrow>
               let w1 = upd c (\<lambda>h. h\<lparr>poscar := Some p\<rparr>) w;
                   dw1 = (if c \<in> set (cal_slabs m) \<or> c \<in> set (cal_interfaces m)
                          then tag_hkl c d w1 else (d, w1));
                   dw2 = (if c \<in> set (cal_interfaces m)
                          then tag_ligand c (fst dw1) (snd dw1) else dw1)
               in case (if \<not> path_exists (snd dw2) jd then makedirs jd (snd dw2)
                        else Inr (snd dw2)) of
                    Inl e \<Rightarrow> Inl e
                  | Inr w4 \<Rightarrow>
                      (case (if fst dw2 \<noteq> [] then dump jd ''system.json'' (fst dw2) w4
                             else Inr w4) of
                         Inl e \<Rightarrow> Inl e
                       | Inr w5 \<Rightarrow> Inr (fst dw2, add_job mk c jd w5)))"

fun interface_jobs ::
  "(path \<Rightarrow> job) \<Rightarrow> measurement_interface \<Rightarrow> nat \<Rightarrow> nat \<Rightarrow> path list \<Rightarrow>
     (string \<times> pyval) list \<times> 'e world \<Rightarrow>
     (error \<times> 'e world) + ((string \<times> pyval) list \<times> 'e world)" where
  "interface_jobs mk m c i [] dw = Inr dw"
| "interface_jobs mk m c i (jdir # jdirs) (d, w) =
     (case interface_job mk m c i jdir d w of
        Inl e \<Rightarrow> Inl e
      | Inr dw' \<Rightarrow> interface_jobs mk m c (Suc i) jdirs dw')"

fun interface_loop ::
  "(path \<Rightarrow> job) \<Rightarrow> measurement_interface \<Rightarrow> nat list \<Rightarrow>
     (string \<times> pyval) list \<times> 'e world \<Rightarrow>
     (error \<times> 'e world) + ((string \<times> pyval) list \<times> 'e world)" where
  "interface_loop mk m [] dw = Inr dw"
| "interface_loop mk m (c # cs) (d, w) =
     (let w1 = upd c (\<lambda>h. h\<lparr>incar := (incar h)(''NSW'' \<mapsto> PInt 0)\<rparr>) w
      in case interface_jobs mk m c 0 (old_job_dir_list (heap w1 c)) (d, w1) of
           Inl e \<Rightarrow> Inl e
         | Inr dw \<Rightarrow> interface_loop mk m cs dw)"

definition MeasurementInterface_setup ::
  "(path \<Rightarrow> job) \<Rightarrow> measurement_interface \<Rightarrow> 'e world \<Rightarrow> (error \<times> 'e world) + 'e world" where
  "MeasurementInterface_setup mk m w =
     (case interface_loop mk m (cal_objs m) ([], w) of
        Inl e \<Rightarrow> Inl e
      | Inr (_, w') \<Rightarrow> Inr w')"

subsection \<open>\<^verbatim>\<open>MeasurementInterface.make_measurements\<close>\<close>

text \<open>\<^verbatim>\<open>str\<close> of a list of integers, as Python prints it: \<^verbatim>\<open>[1, 0, 0]\<close>.\<close>

fun str_nat :: "nat \<Rightarrow> string" where
  "str_nat n =
     (if n < 10 then [''0123456789'' ! n]
      else str_nat (n div 10) @ [''0123456789'' ! (n mod 10)])"

definition str_int :: "int \<Rightarrow> string" where
  "str_int i = (if i < 0 then CHR ''-'' # str_nat (nat (- i)) else str_nat (nat i))"

fun join :: "string \<Rightarrow> string list \<Rightarrow> string" where
  "join s [] = []"
| "join s [x] = x"
| "join s (x # y # ys) = x @ s @ join s (y # ys)"

definition str_list :: "int list \<Rightarrow> string" where
  "str_list xs = ''['' @ join '', '' (map str_int xs) @ '']''"

text \<open>
  Python's lists have no subtraction: \<^verbatim>\<open>a - b\<close> on two lists raises \<^verbatim>\<open>TypeError\<close>
  whatever they hold. An integer times a list repeats the list.
\<close>

definition list_sub :: "'e list \<Rightarrow> 'e list \<Rightarrow> error + 'e list" where
  "list_sub a b = Inl TypeError"

definition int_mul_list :: "int \<Rightarrow> 'e list \<Rightarrow> 'e list" where
  "int_mul_list n xs = concat (replicate (nat n) xs)"

definition slab_key :: "handle \<Rightarrow> error + string" where
  "slab_key h =
     (case system h of
        None \<Rightarrow> Inl (AttributeError ''miller_index'')
      | Some s \<Rightarrow>
          (case miller_index s of
             None \<Rightarrow> Inl (AttributeError ''miller_index'')
           | Some hkl \<Rightarrow> Inr (str_list hkl)))"

definition ligand_key :: "handle \<Rightarrow> error + string" where
  "ligand_key h =
     (case system h of
        None \<Rightarrow> Inl (AttributeError ''ligand'')
      | Some s \<Rightarrow>
          (case ligand_formula s of
             None \<Rightarrow> Inl (AttributeError ''ligand'')
           | Some f \<Rightarrow> Inr f))"

text \<open>Lines 218--220 and 221--223: one table entry per slab and per ligand object.\<close>

fun energies_by ::
  "(handle \<Rightarrow> error + string) \<Rightarrow> 'e namespace \<Rightarrow> nat list \<Rightarrow> (string \<rightharpoonup> 'e list) \<times> 'e world \<Rightarrow>
     (error \<times> 'e world) + ((string \<rightharpoonup> 'e list) \<times> 'e world)" where
  "energies_by keyf ns [] tw = Inr tw"
| "energies_by keyf ns (c # cs) (tbl, w) =
     (case keyf (heap w c) of
        Inl e \<Rightarrow> Inl (e, w)
      | Inr key \<Rightarrow>
          (case get_energy ns c w of
             Inl e \<Rightarrow> Inl e
           | Inr (en, w') \<Rightarrow> energies_by keyf ns cs (tbl(key \<mapsto> en), w')))"

text \<open>
  The right-hand side of lines 229--231, evaluated left to right:
  \<^verbatim>\<open>(E_interfaces[key] - E_slabs[key_slab]) - (n_ligands * E_ligands[key_ligand])\<close>.
\<close>

definition binding_rhs ::
  "(string \<rightharpoonup> 'e list) \<Rightarrow> (string \<rightharpoonup> 'e list) \<Rightarrow> 'e list \<Rightarrow> string \<Rightarrow> string \<Rightarrow> handle \<Rightarrow>
     error + 'e list" where
  "binding_rhs E_slabs E_ligands e_interface key_slab key_ligand h =
     (case E_slabs key_slab of
        None \<Rightarrow> Inl (KeyError key_slab)
      | Some e_slab \<Rightarrow>
          (case list_sub e_interface e_slab of
             Inl e \<Rightarrow> Inl e
           | Inr diff \<Rightarrow>
               (case Option.bind (system h) n_ligands of
                  None \<Rightarrow> Inl (AttributeError ''n_ligands'')
                | Some n \<Rightarrow>
                    (case E_ligands key_ligand of
                       None \<Rightarrow> Inl (KeyError key_ligand)
                     | Some e_ligand \<Rightarrow> list_sub diff (int_mul_list n e_ligand)))))"

text \<open>
  The loop of lines 224--231. The tables \<open>E_interfaces\<close> and the global \<open>E_binding\<close>
  (when it is bound) grow along the loop.
\<close>

fun binding_loop ::
  "'e namespace \<Rightarrow> (string \<rightharpoonup> 'e list) \<Rightarrow> (string \<rightharpoonup> 'e list) \<Rightarrow> nat list \<Rightarrow>
     (string \<rightharpoonup> 'e list) \<times> (string \<times> 'e list) list option \<times> 'e world \<Rightarrow>
     (error \<times> 'e world) + ((string \<rightharpoonup> 'e list) \<times> (string \<times> 'e list) list option \<times> 'e world)" where
  "binding_loop ns E_slabs E_ligands [] st = Inr st"
| "binding_loop ns E_slabs E_ligands (c # cs) (E_interfaces, binding, w) =
     (case slab_key (heap w c) of
        Inl e \<Rightarrow> Inl (e, w)
      | Inr key_slab \<Rightarrow>
          (case ligand_key (heap w c) of
             Inl e \<Rightarrow> Inl (e, w)
           | Inr key_ligand \<Rightarrow>
               let key = key_slab @ key_ligand
               in case get_energy ns c w of
                    Inl e \<Rightarrow> Inl e
                  | Inr (en, w') \<Rightarrow>
                      (case binding_rhs E_slabs E_ligands en key_slab key_ligand (heap w' c) of
                         Inl e \<Rightarrow> Inl (e, w')
                       | Inr v \<Rightarrow>
                           (case binding of
                              None \<Rightarrow> Inl (NameError ''E_binding'', w')
                            | Some b \<Rightarrow>
                                binding_loop ns E_slabs E_ligands cs
                                  (E_interfaces(key \<mapsto> en), Some (AList.update key v b), w')))))"

definition MeasurementInterface_make_measurements ::
  "'e namespace \<Rightarrow> measurement_interface \<Rightarrow> 'e world \<Rightarrow> (error \<times> 'e world) + 'e world" where
  "MeasurementInterface_make_measurements ns m w =
     (case energies_by slab_key ns (cal_slabs m) (Map.empty, w) of
        Inl e \<Rightarrow> Inl e
      | Inr (E_slabs, w1) \<Rightarrow>
          (case energies_by ligand_key ns (cal_ligands m) (Map.empty, w1) of
             Inl e \<Rightarrow> Inl e
           | Inr (E_ligands, w2) \<Rightarrow>
               (case binding_loop ns E_slabs E_ligands (cal_interfaces m)
                       (Map.empty, E_binding ns, w2) of
                  Inl e \<Rightarrow> Inl e
                | Inr (_, binding, w3) \<Rightarrow>
                    (case binding of
                       None \<Rightarrow> Inl (NameError ''E_binding'', w3)
                     | Some b \<Rightarrow> Inr (emit (Info_binding b) w3)))))"


section \<open>Predicates and concrete inputs used in the statements below\<close>

text \<open>
  A calibration object is ready for the static derivation when each of its prior
  directories has a prior job at the same index and holds a \<^verbatim>\<open>CONTCAR\<close> file.
\<close>

definition ready :: "'e world \<Rightarrow> nat \<Rightarrow> bool" where
  "ready w c \<longleftrightarrow>
     length (old_job_dir_list (heap w c)) \<le> length (old_jobs (heap w c)) \<and>
     (\<forall>d \<in> set (old_job_dir_list (heap w c)). files w (d @ [os_sep] @ ''CONTCAR'') \<noteq> None)"

text \<open>The directories the static derivation registers for one calibration object.\<close>

definition static_dirs :: "path \<Rightarrow> 'e world \<Rightarrow> nat \<Rightarrow> path list" where
  "static_dirs base w c =
     map (\<lambda>j. derived_dir base (name j) ''STATIC'')
       (take (length (old_job_dir_list (heap w c))) (old_jobs (heap w c)))"

text \<open>
  A calibration object with two finished prior jobs, in directories \<^verbatim>\<open>p\<close> and \<^verbatim>\<open>q\<close>,
  and a world in which every object is this one, both directories hold a final
  structure and \<^verbatim>\<open>p\<close> holds a wavefunction file.
\<close>

definition h_two :: handle where
  "h_two = \<lparr>kind = Calibrate, incar = Map.empty, poscar = None, system = None,
            jobs = [], job_dir_list = [],
            old_jobs = [Job ''run.1'', Job ''a/b''], old_job_dir_list = [''p'', ''q'']\<rparr>"

definition w_two :: "'e world" where
  "w_two = \<lparr>heap = (\<lambda>_. h_two),
            files = [''p/CONTCAR'' \<mapsto> Data ''s1'', ''q/CONTCAR'' \<mapsto> Data ''s2'',
                     ''p/WAVECAR'' \<mapsto> Data ''wf''],
            dirs = {''p'', ''q''}, logged = [], add_job_calls = []\<rparr>"

definition m_static :: measurement where
  "m_static = \<lparr>cal_objs = [0], job_dir = ''./Measurement''\<rparr>"



text \<open>
  Two calibration objects that have just run: object 0 with job \<^verbatim>\<open>a\<close> in directory
  \<^verbatim>\<open>da\<close>, every other object with job \<^verbatim>\<open>b\<close> in directory \<^verbatim>\<open>db\<close>.
\<close>

definition h_ran :: "string \<Rightarrow> path \<Rightarrow> handle" where
  "h_ran nm d = \<lparr>kind = Calibrate, incar = Map.empty, poscar = None, system = None,
                 jobs = [Job nm], job_dir_list = [d], old_jobs = [], old_job_dir_list = []\<rparr>"

definition w_ran :: "'e world" where
  "w_ran = \<lparr>heap = (\<lambda>i. if i = 0 then h_ran ''a'' ''da'' else h_ran ''b'' ''db''),
            files = Map.empty, dirs = {''da'', ''db''}, logged = [], add_job_calls = []\<rparr>"

text \<open>The world reached by a call that returns a value, whether it raised or not.\<close>

definition reached :: "(error \<times> 's) + ('a \<times> 's) \<Rightarrow> 's" where
  "reached r = (case r of Inl (_, s) \<Rightarrow> s | Inr (_, s) \<Rightarrow> s)"

text \<open>
  A calibration object with a single prior job, and the solvation steps over it and
  over the object with two prior jobs.
\<close>

definition w_one :: "'e world" where
  "w_one = w_two\<lparr>heap := (\<lambda>_. h_two\<lparr>old_jobs := [Job ''run.1''], old_job_dir_list := [''p'']\<rparr>)\<rparr>"

definition m_sol :: "(string \<times> pyval) list \<Rightarrow> measurement_solvation" where
  "m_sol sp = \<lparr>cal_objs = [0], job_dir = ''./MeasurementSolvation'', sol_params = sp\<rparr>"

text \<open>The value a call returned, if it returned.\<close>

definition returned :: "(error \<times> 's) + ('a \<times> 's) \<Rightarrow> 'a option" where
  "returned r = (case r of Inl _ \<Rightarrow> None | Inr (x, _) \<Rightarrow> Some x)"

text \<open>The energies of the truthy entries of a directory's result records.\<close>

definition energies_of :: "'e option list \<Rightarrow> 'e list" where
  "energies_of es = map the (filter (\<lambda>e. e \<noteq> None) es)"

text \<open>
  A namespace in which the collector names are bound: directory \<^verbatim>\<open>d0\<close> yields no
  record and directory \<^verbatim>\<open>d1\<close> yields two. The calibration object has both as its
  current directories.
\<close>

definition q_two :: "path \<Rightarrow> real option list" where
  "q_two d = (if d = ''d1'' then [Some (-3), Some (-4)] else [])"

definition ns_two :: "real namespace" where
  "ns_two = \<lparr>cal = None, MPINTVaspDrone = True, BorgQueen = Some q_two, E_binding = None\<rparr>"

definition w_dirs :: "'e world" where
  "w_dirs = w_ran\<lparr>heap := (\<lambda>_. (h_ran ''a'' ''da'')\<lparr>job_dir_list := [''d0'', ''d1'']\<rparr>)\<rparr>"

text \<open>
  The example of the spec: a slab with facet \<open>[1, 0, 0]\<close> and energy \<open>-7\<close>, the ligand
  \<^verbatim>\<open>Ligand2\<close> with energy \<open>-1\<close>, and their interface with two ligands and energy
  \<open>-10\<close>, as objects 0, 2 and 3 (and every other one), each with one current directory.
\<close>

definition h_sys :: "kind \<Rightarrow> int list option \<Rightarrow> string option \<Rightarrow> int option \<Rightarrow> path \<Rightarrow> handle" where
  "h_sys k hkl lig n d =
     \<lparr>kind = k, incar = Map.empty, poscar = None,
      system = Some \<lparr>miller_index = hkl, ligand_formula = lig, n_ligands = n\<rparr>,
      jobs = [Job d], job_dir_list = [d], old_jobs = [], old_job_dir_list = []\<rparr>"

definition w_meas :: "'e world" where
  "w_meas = \<lparr>heap = (\<lambda>i. if i = 0 then h_sys CalibrateSlab (Some [1, 0, 0]) None None ''s''
                          else if i = 2 then h_sys CalibrateMolecule None (Some ''Ligand2'') None ''l''
                          else h_sys CalibrateInterface (Some [1, 0, 0]) (Some ''Ligand2'') (Some 2) ''i''),
             files = Map.empty, dirs = {''s'', ''l'', ''i''}, logged = [], add_job_calls = []\<rparr>"

definition q_spec :: "path \<Rightarrow> real option list" where
  "q_spec d = (if d = ''s'' then [Some (-7)] else if d = ''l'' then [Some (-1)]
               else if d = ''i'' then [Some (-10)] else [])"

definition ns_spec :: "real namespace" where
  "ns_spec = \<lparr>cal = None, MPINTVaspDrone = True, BorgQueen = Some q_spec, E_binding = Some []\<rparr>"

definition m_meas :: "nat list \<Rightarrow> measurement_interface" where
  "m_meas objs = classify (w_meas :: real world) objs
     \<lparr>cal_objs = objs, job_dir = ''./MeasurementInterface'',
      cal_slabs = [], cal_interfaces = [], cal_ligands = []\<rparr>"

text \<open>
  Three calibration objects with one prior job each: the interface of facet
  \<open>[1, 0, 0]\<close> with the ligand \<^verbatim>\<open>H4N2\<close> (object 0), a slab of facet \<open>[1, 1, 1]\<close>
  (object 2) and the ligand alone (every other object); each prior directory holds a
  final structure.
\<close>

definition h_prior :: "kind \<Rightarrow> int list option \<Rightarrow> string option \<Rightarrow> string \<Rightarrow> path \<Rightarrow> handle" where
  "h_prior k hkl lig nm d =
     \<lparr>kind = k, incar = Map.empty, poscar = None,
      system = Some \<lparr>miller_index = hkl, ligand_formula = lig, n_ligands = Some 1\<rparr>,
      jobs = [], job_dir_list = [], old_jobs = [Job nm], old_job_dir_list = [d]\<rparr>"

definition w_iface :: "'e world" where
  "w_iface =
     \<lparr>heap = (\<lambda>i. if i = 0 then h_prior CalibrateInterface (Some [1, 0, 0]) (Some ''H4N2'') ''iface'' ''pi''
                  else if i = 2 then h_prior CalibrateSlab (Some [1, 1, 1]) None ''slab'' ''ps''
                  else h_prior CalibrateMolecule None (Some ''H4N2'') ''lig'' ''pl''),
      files = [''pi/CONTCAR'' \<mapsto> Data ''si'', ''ps/CONTCAR'' \<mapsto> Data ''ss'',
               ''pl/CONTCAR'' \<mapsto> Data ''sl''],
      dirs = {''pi'', ''ps'', ''pl''}, logged = [], add_job_calls = []\<rparr>"

definition m_iface :: "nat list \<Rightarrow> measurement_interface" where
  "m_iface objs = classify (w_iface :: unit world) objs
     \<lparr>cal_objs = objs, job_dir = ''./MeasurementInterface'',
      cal_slabs = [], cal_interfaces = [], cal_ligands = []\<rparr>"

section \<open>Basic facts about the primitive operations\<close>

lemma upd_simps [simp]:
  "heap (upd c f w) = (heap w)(c := f (heap w c))"
  "files (upd c f w) = files w"
  "dirs (upd c f w) = dirs w"
  "logged (upd c f w) = logged w"
  "add_job_calls (upd c f w) = add_job_calls w"
  by (simp_all add: upd_def)

lemma emit_simps [simp]:
  "heap (emit r w) = heap w"
  "files (emit r w) = files w"
  "dirs (emit r w) = dirs w"
  "logged (emit r w) = logged w @ [r]"
  "add_job_calls (emit r w) = add_job_calls w"
  by (simp_all add: emit_def)

lemma add_job_simps [simp]:
  "heap (add_job mk c d w) =
     (heap w)(c := (heap w c)\<lparr>jobs := jobs (heap w c) @ [mk d],
                               job_dir_list := job_dir_list (heap w c) @ [d]\<rparr>)"
  "files (add_job mk c d w) = files w"
  "dirs (add_job mk c d w) = insert d (dirs w)"
  "logged (add_job mk c d w) = logged w"
  "add_job_calls (add_job mk c d w) = add_job_calls w @ [(c, d)]"
  by (simp_all add: add_job_def)

lemma raised_simps [simp]:
  "raised (Inl (e, s)) = Some e"
  "raised (Inr x) = None"
  by (simp_all add: raised_def)

lemma final_simps [simp]:
  "final (Inl (e, s)) = s"
  "final (Inr s) = s"
  by (simp_all add: final_def)

section \<open>The static derivation: one successor per predecessor\<close>

lemma setup_jobs_Inr:
  "setup_jobs mk base c i ds w = Inr w' \<Longrightarrow>
     add_job_calls w' = add_job_calls w @
        map (\<lambda>j. (c, derived_dir base (name j) ''STATIC''))
          (take (length ds) (drop i (old_jobs (heap w c)))) \<and>
     files w' = files w \<and>
     (\<forall>x. old_jobs (heap w' x) = old_jobs (heap w x) \<and>
          old_job_dir_list (heap w' x) = old_job_dir_list (heap w x) \<and>
          job_dir_list (heap w' x) = job_dir_list (heap w x) @
            (if x = c then map (\<lambda>j. derived_dir base (name j) ''STATIC'')
                             (take (length ds) (drop i (old_jobs (heap w c)))) else [])) \<and>
     (ds \<noteq> [] \<longrightarrow> i + length ds \<le> length (old_jobs (heap w c))) \<and>
     (\<forall>d \<in> set ds. files w (d @ [os_sep] @ ''CONTCAR'') \<noteq> None)"
proof (induction ds arbitrary: i w)
  case Nil
  then show ?case by simp
next
  case (Cons jdir jdirs)
  from Cons.prems have lt: "i < length (old_jobs (heap w c))"
    by (simp split: if_splits)
  from Cons.prems lt obtain p where
    p: "files w (jdir @ [os_sep] @ ''CONTCAR'') = Some p"
    by (auto simp: Let_def Poscar_from_file_def split: option.splits)
  define jd where "jd = derived_dir base (name (old_jobs (heap w c) ! i)) ''STATIC''"
  define w3 where "w3 = add_job mk c jd (upd c (\<lambda>h. h\<lparr>poscar := Some p\<rparr>)
     (emit (Info (''setting poscar file from '' @ jdir @ [os_sep] @ ''CONTCAR''))
        (emit (Info (''setting up job in '' @ jd)) w)))"
  have rec: "setup_jobs mk base c (Suc i) jdirs w3 = Inr w'"
    using Cons.prems lt p by (simp add: Let_def Poscar_from_file_def w3_def jd_def)
  note ih = Cons.IH [OF rec]
  have h3: "old_jobs (heap w3 x) = old_jobs (heap w x)"
     "old_job_dir_list (heap w3 x) = old_job_dir_list (heap w x)"
     "files w3 = files w" "add_job_calls w3 = add_job_calls w @ [(c, jd)]"
     "job_dir_list (heap w3 x) = job_dir_list (heap w x) @ (if x = c then [jd] else [])" for x
    by (simp_all add: w3_def)
  have tk: "take (Suc (length jdirs)) (drop i (old_jobs (heap w c))) =
      old_jobs (heap w c) ! i # take (length jdirs) (drop (Suc i) (old_jobs (heap w c)))"
    using lt by (simp add: Cons_nth_drop_Suc [symmetric])
  show ?case
    using ih lt p by (auto simp: h3 tk jd_def)
qed

lemma setup_jobs_total:
  "i + length ds \<le> length (old_jobs (heap w c)) \<Longrightarrow>
   \<forall>d \<in> set ds. files w (d @ [os_sep] @ ''CONTCAR'') \<noteq> None \<Longrightarrow>
   \<exists>w'. setup_jobs mk base c i ds w = Inr w'"
proof (induction ds arbitrary: i w)
  case Nil
  then show ?case by simp
next
  case (Cons jdir jdirs)
  then show ?case
    by (auto simp: Let_def Poscar_from_file_def)
qed


lemma setup_loop_Inr:
  "setup_loop mk base cs w = Inr w' \<Longrightarrow>
     add_job_calls w' = add_job_calls w @
        concat (map (\<lambda>c. map (Pair c) (static_dirs base w c)) cs) \<and>
     files w' = files w \<and>
     (\<forall>x. old_jobs (heap w' x) = old_jobs (heap w x) \<and>
          old_job_dir_list (heap w' x) = old_job_dir_list (heap w x) \<and>
          job_dir_list (heap w' x) = job_dir_list (heap w x) @
            concat (map (\<lambda>c. if x = c then static_dirs base w c else []) cs)) \<and>
     (\<forall>c \<in> set cs. ready w c)"
proof (induction cs arbitrary: w)
  case Nil
  then show ?case by simp
next
  case (Cons c cs)
  define w1 where "w1 = upd c (\<lambda>h. h\<lparr>incar := (incar h)(''NSW'' \<mapsto> PInt 0)\<rparr>) w"
  from Cons.prems obtain w2 where
    inner: "setup_jobs mk base c 0 (old_job_dir_list (heap w1 c)) w1 = Inr w2" and
    rest: "setup_loop mk base cs w2 = Inr w'"
    by (auto simp: Let_def w1_def split: sum.splits)
  have f1: "old_jobs (heap w1 x) = old_jobs (heap w x)"
      "old_job_dir_list (heap w1 x) = old_job_dir_list (heap w x)"
      "job_dir_list (heap w1 x) = job_dir_list (heap w x)"
      "files w1 = files w" "add_job_calls w1 = add_job_calls w" for x
    by (simp_all add: w1_def)
  note a = setup_jobs_Inr [OF inner, unfolded f1]
  have sd: "static_dirs base w2 x = static_dirs base w x" for x
    using a by (simp add: static_dirs_def)
  have rd: "ready w2 x = ready w x" for x
    using a by (simp add: ready_def)
  note b = Cons.IH [OF rest, unfolded sd rd]
  have c_ready: "ready w c"
    using a by (auto simp: ready_def)
  have calls: "add_job_calls w' = add_job_calls w @
        concat (map (\<lambda>c. map (Pair c) (static_dirs base w c)) (c # cs))"
    using a b by (simp add: static_dirs_def comp_def)
  have frame: "old_jobs (heap w' x) = old_jobs (heap w x) \<and>
          old_job_dir_list (heap w' x) = old_job_dir_list (heap w x) \<and>
          job_dir_list (heap w' x) = job_dir_list (heap w x) @
            concat (map (\<lambda>c. if x = c then static_dirs base w c else []) (c # cs))" for x
    using a b by (simp add: static_dirs_def)
  show ?case
    using calls frame c_ready a b by simp
qed

lemma setup_loop_total:
  "\<forall>c \<in> set cs. ready w c \<Longrightarrow> \<exists>w'. setup_loop mk base cs w = Inr w'"
proof (induction cs arbitrary: w)
  case Nil
  then show ?case by simp
next
  case (Cons c cs)
  define w1 where "w1 = upd c (\<lambda>h. h\<lparr>incar := (incar h)(''NSW'' \<mapsto> PInt 0)\<rparr>) w"
  have f1: "old_jobs (heap w1 x) = old_jobs (heap w x)"
      "old_job_dir_list (heap w1 x) = old_job_dir_list (heap w x)"
      "files w1 = files w" for x
    by (simp_all add: w1_def)
  from Cons.prems have "ready w c" by simp
  then obtain w2 where
    inner: "setup_jobs mk base c 0 (old_job_dir_list (heap w1 c)) w1 = Inr w2"
    using setup_jobs_total [of 0 "old_job_dir_list (heap w1 c)" w1 c mk base]
    by (auto simp: ready_def f1)
  note a = setup_jobs_Inr [OF inner, unfolded f1]
  have rd: "ready w2 x = ready w x" for x
    using a by (simp add: ready_def)
  from Cons.prems have "\<forall>x \<in> set cs. ready w2 x" by (simp add: rd)
  from Cons.IH [OF this] obtain w' where "setup_loop mk base cs w2 = Inr w'" by blast
  then show ?case
    using inner by (simp add: Let_def w1_def)
qed

lemma length_concat_if:
  "length (concat (map (\<lambda>c. if x = c then f c else []) cs)) = count_list cs x * length (f x)"
  by (induction cs) auto

lemma filter_fst_concat_Pair:
  "filter (\<lambda>p. fst p = x) (concat (map (\<lambda>c. map (Pair c) (f c)) cs)) =
     concat (map (\<lambda>c. if x = c then map (Pair c) (f c) else []) cs)"
  by (induction cs) auto

lemma length_concat_if_Pair:
  "length (concat (map (\<lambda>c. if x = c then map (Pair c) (f c) else []) cs)) =
     count_list cs x * length (f x)"
  by (induction cs) auto

lemma length_static_dirs:
  "ready w c \<Longrightarrow> length (static_dirs base w c) = length (old_job_dir_list (heap w c))"
  by (simp add: static_dirs_def ready_def)

text \<open>
  Claim C1. The static derivation \<^verbatim>\<open>Measurement.setup\<close> completes exactly when every
  calibration object it is given is ready, and when it completes it has called
  \<^verbatim>\<open>add_job\<close> on each object once per entry of the object's prior job-directory list
  (for each time the object occurs in the list handed to the step): the number of
  \<^verbatim>\<open>add_job\<close> calls on the object, and the length of its current job-directory list,
  grow by the number of its prior job directories.
\<close>

theorem setup_one_job_per_prior_dir:
  "((\<exists>w'. Measurement_setup mk m w = Inr w') \<longleftrightarrow> (\<forall>c \<in> set (cal_objs m). ready w c)) \<and>
   (\<forall>w' c. Measurement_setup mk m w = Inr w' \<longrightarrow>
      length (filter (\<lambda>p. fst p = c) (add_job_calls w')) =
        length (filter (\<lambda>p. fst p = c) (add_job_calls w)) +
        count_list (cal_objs m) c * length (old_job_dir_list (heap w c)) \<and>
      length (job_dir_list (heap w' c)) =
        length (job_dir_list (heap w c)) +
        count_list (cal_objs m) c * length (old_job_dir_list (heap w c)))"
proof (intro conjI allI impI iffI)
  assume "\<exists>w'. Measurement_setup mk m w = Inr w'"
  then show "\<forall>c \<in> set (cal_objs m). ready w c"
    using setup_loop_Inr [of mk "job_dir m" "cal_objs m" w]
    by (auto simp: Measurement_setup_def)
next
  assume "\<forall>c \<in> set (cal_objs m). ready w c"
  then show "\<exists>w'. Measurement_setup mk m w = Inr w'"
    unfolding Measurement_setup_def by (rule setup_loop_total)
next
  fix w' c
  assume ok: "Measurement_setup mk m w = Inr w'"
  note a = setup_loop_Inr [OF ok [unfolded Measurement_setup_def]]
  have len: "count_list (cal_objs m) c * length (static_dirs (job_dir m) w c) =
      count_list (cal_objs m) c * length (old_job_dir_list (heap w c))"
  proof (cases "c \<in> set (cal_objs m)")
    case True
    with a have "ready w c" by blast
    then show ?thesis by (simp add: length_static_dirs)
  next
    case False
    then show ?thesis by simp
  qed
  show "length (filter (\<lambda>p. fst p = c) (add_job_calls w')) =
        length (filter (\<lambda>p. fst p = c) (add_job_calls w)) +
        count_list (cal_objs m) c * length (old_job_dir_list (heap w c))"
    using a len by (simp add: filter_fst_concat_Pair length_concat_if_Pair)
  show "length (job_dir_list (heap w' c)) =
        length (job_dir_list (heap w c)) +
        count_list (cal_objs m) c * length (old_job_dir_list (heap w c))"
    using a len by (simp add: length_concat_if)
qed


theorem setup_one_job_per_prior_dir_witness:
  "ready (w_two :: unit world) 0 \<and>
   length (old_job_dir_list (heap (w_two :: unit world) 0)) = 2 \<and>
   raised (Measurement_setup Job m_static (w_two :: unit world)) = None \<and>
   length (filter (\<lambda>p. fst p = 0)
             (add_job_calls (final (Measurement_setup Job m_static (w_two :: unit world))))) = 2 \<and>
   length (job_dir_list (heap (final (Measurement_setup Job m_static (w_two :: unit world))) 0)) = 2"
proof -
  let ?w = "w_two :: unit world"
  have r: "ready ?w 0"
    by (simp add: ready_def w_two_def h_two_def os_sep_def)
  have objs: "cal_objs m_static = [0]"
    by (simp add: m_static_def)
  have old: "length (old_job_dir_list (heap ?w 0)) = 2"
    by (simp add: w_two_def h_two_def)
  have start: "add_job_calls ?w = []" "job_dir_list (heap ?w 0) = []"
    by (simp_all add: w_two_def h_two_def)
  note t = setup_one_job_per_prior_dir [of Job m_static ?w]
  from t r objs obtain w' where ok: "Measurement_setup Job m_static ?w = Inr w'"
    by auto
  from t ok objs old start have
    "length (filter (\<lambda>p. fst p = 0) (add_job_calls w')) = 2"
    "length (job_dir_list (heap w' 0)) = 2"
    by auto
  with r old ok show ?thesis by simp
qed

section \<open>The static derivation: a missing final structure\<close>




lemma w_two_simps:
  "heap (w_two :: 'e world) c = h_two"
  "add_job_calls (w_two :: 'e world) = []"
  "old_jobs h_two = [Job ''run.1'', Job ''a/b'']"
  "old_job_dir_list h_two = [''p'', ''q'']"
  by (simp_all add: w_two_def h_two_def)



section \<open>Construction of a derivation step\<close>

lemma reached_simps [simp]:
  "reached (Inl (e, s)) = s"
  "reached (Inr (x, s)) = s"
  by (simp_all add: reached_def)

lemma init_loop_unbound:
  "objs \<noteq> [] \<Longrightarrow> \<exists>w'. init_loop None objs w = Inl (NameError ''cal'', w')"
  by (cases objs) (simp_all add: Let_def)

text \<open>
  Claim C3 fails on the code. Constructing a step over the one calibration object 0, in
  the namespace the module has when it is imported, raises \<^verbatim>\<open>NameError\<close> for \<^verbatim>\<open>cal\<close>
  after the jobs were archived: the job-directory list of the object is neither
  archived nor reset. When \<^verbatim>\<open>cal\<close> is bound, to object 1, the prior directories of
  object 0 become those of object 1.
\<close>

theorem init_raises_on_unbound_cal:
  "raised (Measurement_init module_namespace [0] ''./Measurement'' (w_ran :: unit world))
     = Some (NameError ''cal'') \<and>
   job_dir_list (heap (reached (Measurement_init module_namespace [0] ''./Measurement''
      (w_ran :: unit world))) 0) = [''da''] \<and>
   old_job_dir_list (heap (reached (Measurement_init module_namespace [0] ''./Measurement''
      (w_ran :: unit world))) 0) = [] \<and>
   old_job_dir_list (heap (reached (Measurement_init (module_namespace\<lparr>cal := Some 1\<rparr>) [0]
      ''./Measurement'' (w_ran :: unit world))) 0) = [''db'']"
  by (simp add: Measurement_init_def module_namespace_def w_ran_def h_ran_def Let_def)

section \<open>The solvation derivation\<close>

lemma mkdirs_Inr:
  "mkdirs ps w = Inr w' \<Longrightarrow> w' = w\<lparr>dirs := dirs w \<union> set ps\<rparr>"
proof (induction ps arbitrary: w)
  case Nil
  then show ?case by simp
next
  case (Cons a ps)
  show ?case
  proof (cases "a \<in> dirs w")
    case True
    with Cons.prems have "mkdirs ps w = Inr w'" by simp
    from Cons.IH [OF this] True show ?thesis by (simp add: insert_absorb)
  next
    case False
    with Cons.prems have "mkdirs ps (w\<lparr>dirs := insert a (dirs w)\<rparr>) = Inr w'"
      by (simp split: if_splits)
    from Cons.IH [OF this] show ?thesis by simp
  qed
qed

lemma mkdirs_clear:
  "\<forall>a \<in> set ps. files w a = None \<Longrightarrow> \<exists>w'. mkdirs ps w = Inr w'"
  by (induction ps arbitrary: w) auto

lemma ancestors_from_shorter:
  "a \<in> set (ancestors_from acc p) \<Longrightarrow> length a < length acc + length p"
  by (induction p arbitrary: acc) (fastforce split: if_splits)+

lemma ancestors_shorter: "a \<in> set (ancestors p) \<Longrightarrow> length a < length p"
  using ancestors_from_shorter [of a "[]" p] by (simp add: ancestors_def)

text \<open>The two lines \<^verbatim>\<open>if not os.path.exists(job_dir): os.makedirs(job_dir)\<close>.\<close>

lemma ensure_dir_Inr:
  assumes "(if \<not> path_exists w p then makedirs p w else Inr w) = Inr w'"
  shows "heap w' = heap w" "files w' = files w" "add_job_calls w' = add_job_calls w"
    "logged w' = logged w" "dirs w \<subseteq> dirs w'" "dirs w' \<subseteq> dirs w \<union> set (ancestors p) \<union> {p}"
    "files w p = None \<Longrightarrow> p \<in> dirs w'"
proof -
  have "w' = w \<and> path_exists w p \<or> w' = w\<lparr>dirs := dirs w \<union> set (ancestors p @ [p])\<rparr>"
    using assms by (auto simp: makedirs_def dest: mkdirs_Inr split: if_splits)
  then show "heap w' = heap w" "files w' = files w" "add_job_calls w' = add_job_calls w"
    "logged w' = logged w" "dirs w \<subseteq> dirs w'" "dirs w' \<subseteq> dirs w \<union> set (ancestors p) \<union> {p}"
    "files w p = None \<Longrightarrow> p \<in> dirs w'"
    by (auto simp: path_exists_def)
qed

lemma ensure_dir_clear:
  assumes "\<forall>a \<in> set (ancestors p). files w a = None" "files w p = None"
  shows "\<exists>w'. (if \<not> path_exists w p then makedirs p w else Inr w) = Inr w'"
  using assms mkdirs_clear [of "ancestors p @ [p]" w] by (auto simp: makedirs_def)

lemma dump_Inr:
  "dump d fname obj w = Inr w' \<Longrightarrow>
     d \<in> dirs w \<and> w' = w\<lparr>files := (files w)(d @ [os_sep] @ fname \<mapsto> Json obj)\<rparr>"
  by (auto simp: dump_def split: if_splits)

lemma copy_Inr:
  "copy src dst w = Inr w' \<Longrightarrow>
     (\<exists>f p. files w src = Some f \<and> w' = w\<lparr>files := (files w)(p \<mapsto> f)\<rparr>)"
  by (auto simp: copy_def Let_def split: option.splits if_splits)

lemma dirname_wavecar: "dirname (d @ [os_sep] @ ''WAVECAR'') = d"
  by (simp add: dirname_def os_sep_def)

lemma sol_loop_frame:
  "sol_loop c sp w = Inr w' \<Longrightarrow>
     files w' = files w \<and> dirs w' = dirs w \<and> add_job_calls w' = add_job_calls w \<and>
     logged w' = logged w \<and>
     (\<forall>x. old_jobs (heap w' x) = old_jobs (heap w x) \<and>
          old_job_dir_list (heap w' x) = old_job_dir_list (heap w x) \<and>
          job_dir_list (heap w' x) = job_dir_list (heap w x) \<and>
          jobs (heap w' x) = jobs (heap w x))"
proof (induction sp arbitrary: w)
  case Nil
  then show ?case by simp
next
  case (Cons item items)
  obtain key val where item: "item = (key, val)" by (cases item)
  from Cons.prems obtain k v where
    kv: "unpack2 key = Inr (k, v)" and
    rest: "sol_loop c items (upd c (\<lambda>h. h\<lparr>incar := (incar h)(k \<mapsto> PStr v)\<rparr>) w) = Inr w'"
    by (auto simp: item split: sum.splits)
  from Cons.IH [OF rest] show ?case by simp
qed

lemma wavecar_not_manifest:
  "a @ [os_sep] @ ''WAVECAR'' \<noteq> b @ [os_sep] @ ''system.json''"
proof
  assume "a @ [os_sep] @ ''WAVECAR'' = b @ [os_sep] @ ''system.json''"
  then have "last (a @ [os_sep] @ ''WAVECAR'') = last (b @ [os_sep] @ ''system.json'')"
    by (rule arg_cong)
  then show False by simp
qed

lemma solvation_cal_cases:
  assumes "solvation_cal mk m c w = Inr w'"
  obtains j0 js w2 w3 w4 d0 ds w5 where
    "old_jobs (heap w c) = j0 # js"
    "sol_loop c (sol_params m)
       (upd c (\<lambda>h. h\<lparr>incar := (incar h)(''LSOL'' \<mapsto> PStr ''.TRUE.'')\<rparr>) w) = Inr w2"
    "(if \<not> path_exists w2 (derived_dir (job_dir m) (name j0) ''SOL'')
      then makedirs (derived_dir (job_dir m) (name j0) ''SOL'') w2 else Inr w2) = Inr w3"
    "dump (derived_dir (job_dir m) (name j0) ''SOL'') ''system.json'' (sol_params m) w3 = Inr w4"
    "old_job_dir_list (heap w4 c) = d0 # ds"
    "copy (d0 @ [os_sep] @ ''WAVECAR'')
       (derived_dir (job_dir m) (name j0) ''SOL'' @ [os_sep] @ ''WAVECAR'') w4 = Inr w5"
    "w' = add_job mk c (derived_dir (job_dir m) (name j0) ''SOL'') w5"
proof -
  from assms obtain j0 js where j0: "old_jobs (heap w c) = j0 # js"
    by (cases "old_jobs (heap w c)") (auto simp: solvation_cal_def Let_def)
  define jd where "jd = derived_dir (job_dir m) (name j0) ''SOL''"
  define w1 where "w1 = upd c (\<lambda>h. h\<lparr>incar := (incar h)(''LSOL'' \<mapsto> PStr ''.TRUE.'')\<rparr>) w"
  have run: "solvation_cal mk m c w =
     (case sol_loop c (sol_params m) w1 of
        Inl e \<Rightarrow> Inl e
      | Inr w2 \<Rightarrow>
          (case (if \<not> path_exists w2 jd then makedirs jd w2 else Inr w2) of
             Inl e \<Rightarrow> Inl e
           | Inr w3 \<Rightarrow>
               (case dump jd ''system.json'' (sol_params m) w3 of
                  Inl e \<Rightarrow> Inl e
                | Inr w4 \<Rightarrow>
                    (case old_job_dir_list (heap w4 c) of
                       [] \<Rightarrow> Inl (IndexError, w4)
                     | d0 # _ \<Rightarrow>
                         (case copy (d0 @ [os_sep] @ ''WAVECAR'') (jd @ [os_sep] @ ''WAVECAR'') w4 of
                            Inl e \<Rightarrow> Inl e
                          | Inr w5 \<Rightarrow> Inr (add_job mk c jd w5))))))"
    unfolding solvation_cal_def Let_def jd_def w1_def using j0 by simp
  from assms [unfolded run] obtain w2 where w2: "sol_loop c (sol_params m) w1 = Inr w2"
    by (cases "sol_loop c (sol_params m) w1") auto
  from assms [unfolded run] w2 obtain w3 where
    w3: "(if \<not> path_exists w2 jd then makedirs jd w2 else Inr w2) = Inr w3"
    by (cases "if \<not> path_exists w2 jd then makedirs jd w2 else Inr w2") auto
  from assms [unfolded run] w2 w3 obtain w4 where
    w4: "dump jd ''system.json'' (sol_params m) w3 = Inr w4"
    by (cases "dump jd ''system.json'' (sol_params m) w3") auto
  from assms [unfolded run] w2 w3 w4 obtain d0 ds where
    d0: "old_job_dir_list (heap w4 c) = d0 # ds"
    by (cases "old_job_dir_list (heap w4 c)") auto
  from assms [unfolded run] w2 w3 w4 d0 obtain w5 where
    w5: "copy (d0 @ [os_sep] @ ''WAVECAR'') (jd @ [os_sep] @ ''WAVECAR'') w4 = Inr w5"
    by (cases "copy (d0 @ [os_sep] @ ''WAVECAR'') (jd @ [os_sep] @ ''WAVECAR'') w4") auto
  from assms [unfolded run] w2 w3 w4 d0 w5 have res: "w' = add_job mk c jd w5"
    by simp
  show ?thesis
    using that [OF j0 w2 [unfolded w1_def] w3 [unfolded jd_def] w4 [unfolded jd_def] d0
        w5 [unfolded jd_def] res [unfolded jd_def]] .
qed

lemma solvation_cal_Inr:
  assumes "solvation_cal mk m c w = Inr w'"
  shows "add_job_calls w' = add_job_calls w @
           map (\<lambda>j. (c, derived_dir (job_dir m) (name j) ''SOL'')) (take 1 (old_jobs (heap w c))) \<and>
         (\<forall>x. old_jobs (heap w' x) = old_jobs (heap w x))"
proof -
  from assms obtain j0 js w2 w3 w4 d0 ds w5 where
    j0: "old_jobs (heap w c) = j0 # js" and
    w2: "sol_loop c (sol_params m)
       (upd c (\<lambda>h. h\<lparr>incar := (incar h)(''LSOL'' \<mapsto> PStr ''.TRUE.'')\<rparr>) w) = Inr w2" and
    w3: "(if \<not> path_exists w2 (derived_dir (job_dir m) (name j0) ''SOL'')
      then makedirs (derived_dir (job_dir m) (name j0) ''SOL'') w2 else Inr w2) = Inr w3" and
    w4: "dump (derived_dir (job_dir m) (name j0) ''SOL'') ''system.json'' (sol_params m) w3 = Inr w4" and
    w5: "copy (d0 @ [os_sep] @ ''WAVECAR'')
       (derived_dir (job_dir m) (name j0) ''SOL'' @ [os_sep] @ ''WAVECAR'') w4 = Inr w5" and
    res: "w' = add_job mk c (derived_dir (job_dir m) (name j0) ''SOL'') w5"
    by (rule solvation_cal_cases)
  note fr = sol_loop_frame [OF w2]
  note h3 = ensure_dir_Inr(1,3) [OF w3]
  from dump_Inr [OF w4] have h4: "heap w4 = heap w3" "add_job_calls w4 = add_job_calls w3"
    by simp_all
  from copy_Inr [OF w5] have h5: "heap w5 = heap w4" "add_job_calls w5 = add_job_calls w4"
    by auto
  show ?thesis
    using fr by (simp add: res h5 h4 h3 j0)
qed

lemma solvation_loop_Inr:
  "solvation_loop mk m cs w = Inr w' \<Longrightarrow>
     add_job_calls w' = add_job_calls w @
       concat (map (\<lambda>c. map (\<lambda>j. (c, derived_dir (job_dir m) (name j) ''SOL''))
                          (take 1 (old_jobs (heap w c)))) cs) \<and>
     (\<forall>x. old_jobs (heap w' x) = old_jobs (heap w x))"
proof (induction cs arbitrary: w)
  case Nil
  then show ?case by simp
next
  case (Cons c cs)
  from Cons.prems obtain w1 where
    one: "solvation_cal mk m c w = Inr w1" and rest: "solvation_loop mk m cs w1 = Inr w'"
    by (auto split: sum.splits)
  from solvation_cal_Inr [OF one] Cons.IH [OF rest] show ?case by simp
qed

text \<open>
  Claim C4, as amended. The solvation derivation does not look at the number of prior
  jobs. For a calibration object with at least one prior job and one prior directory
  (and any number of further ones), the body of the loop of
  \<^verbatim>\<open>MeasurementSolvation.setup\<close> completes once the parameter loop has completed,
  provided that the first prior directory holds a \<^verbatim>\<open>WAVECAR\<close> file and is not the new
  directory itself, and that nothing is in the way of the new directory: no regular
  file at its path or at the path of one of its ancestors, and no directory at the path
  of its manifest or of its \<^verbatim>\<open>WAVECAR\<close>. Then the new directory, derived from the first
  prior job, exists, holds the manifest and the \<^verbatim>\<open>WAVECAR\<close> of the first prior
  directory, and exactly one job is registered in it.
\<close>

theorem solvation_uses_first_prior_job:
  assumes jobs: "old_jobs (heap w c) = j0 # js"
    and dirs: "old_job_dir_list (heap w c) = d0 # ds"
    and params: "sol_loop c (sol_params m)
                   (upd c (\<lambda>h. h\<lparr>incar := (incar h)(''LSOL'' \<mapsto> PStr ''.TRUE.'')\<rparr>) w) = Inr w2"
    and wavecar: "files w (d0 @ ''/WAVECAR'') = Some f"
    and other: "d0 \<noteq> derived_dir (job_dir m) (name j0) ''SOL''"
    and nofile: "files w (derived_dir (job_dir m) (name j0) ''SOL'') = None"
    and noanc: "\<forall>a \<in> set (ancestors (derived_dir (job_dir m) (name j0) ''SOL'')). files w a = None"
    and nodir1: "derived_dir (job_dir m) (name j0) ''SOL'' @ ''/system.json'' \<notin> dirs w"
    and nodir2: "derived_dir (job_dir m) (name j0) ''SOL'' @ ''/WAVECAR'' \<notin> dirs w"
  shows "\<exists>w'. solvation_cal mk m c w = Inr w' \<and>
           add_job_calls w' = add_job_calls w @ [(c, derived_dir (job_dir m) (name j0) ''SOL'')] \<and>
           job_dir_list (heap w' c) =
             job_dir_list (heap w c) @ [derived_dir (job_dir m) (name j0) ''SOL''] \<and>
           derived_dir (job_dir m) (name j0) ''SOL'' \<in> dirs w' \<and>
           files w' (derived_dir (job_dir m) (name j0) ''SOL'' @ ''/system.json'') =
             Some (Json (sol_params m)) \<and>
           files w' (derived_dir (job_dir m) (name j0) ''SOL'' @ ''/WAVECAR'') = Some f"
proof -
  define jd where "jd = derived_dir (job_dir m) (name j0) ''SOL''"
  note fr = sol_loop_frame [OF params]
  have clear2: "\<forall>a \<in> set (ancestors jd). files w2 a = None" "files w2 jd = None"
    using noanc nofile fr by (simp_all add: jd_def)
  from ensure_dir_clear [OF clear2] obtain w3 where
    w3: "(if \<not> path_exists w2 jd then makedirs jd w2 else Inr w2) = Inr w3" by blast
  note e3 = ensure_dir_Inr [OF w3]
  have in3: "jd \<in> dirs w3"
    using e3(7) clear2 by simp
  have sub3: "dirs w3 \<subseteq> dirs w \<union> set (ancestors jd) \<union> {jd}"
    using e3(6) fr by simp
  have out3: "jd @ [os_sep] @ x \<notin> dirs w3" if "jd @ [os_sep] @ x \<notin> dirs w" for x
  proof
    assume "jd @ [os_sep] @ x \<in> dirs w3"
    with sub3 that have "jd @ [os_sep] @ x \<in> set (ancestors jd) \<or> jd @ [os_sep] @ x = jd"
      by auto
    then show False
      by (auto dest: ancestors_shorter)
  qed
  have m3: "jd @ [os_sep] @ ''system.json'' \<notin> dirs w3"
    using nodir1 by (intro out3) (simp add: jd_def os_sep_def)
  have v3: "jd @ [os_sep] @ ''WAVECAR'' \<notin> dirs w3"
    using nodir2 by (intro out3) (simp add: jd_def os_sep_def)
  define w4 where "w4 = w3\<lparr>files := (files w3)(jd @ [os_sep] @ ''system.json'' \<mapsto> Json (sol_params m))\<rparr>"
  have d4: "dump jd ''system.json'' (sol_params m) w3 = Inr w4"
    using in3 m3 by (simp add: dump_def w4_def)
  have h3: "heap w3 = heap w2" "files w3 = files w" "add_job_calls w3 = add_job_calls w"
    using fr e3 by simp_all
  have src: "files w4 (d0 @ [os_sep] @ ''WAVECAR'') = Some f"
    using wavecar by (simp add: w4_def h3 wavecar_not_manifest os_sep_def)
  define w5 where "w5 = w4\<lparr>files := (files w4)(jd @ [os_sep] @ ''WAVECAR'' \<mapsto> f)\<rparr>"
  have dn: "dirname (jd @ [os_sep] @ ''WAVECAR'') = jd"
    by (rule dirname_wavecar)
  have v4: "jd @ [os_sep] @ ''WAVECAR'' \<notin> dirs w4" "jd \<in> dirs w4"
    using v3 in3 by (simp_all add: w4_def)
  have c5: "copy (d0 @ [os_sep] @ ''WAVECAR'') (jd @ [os_sep] @ ''WAVECAR'') w4 = Inr w5"
    using src v4 other dn
    by (simp add: copy_def Let_def w5_def jd_def [symmetric])
  have old4: "old_job_dir_list (heap w4 c) = d0 # ds"
    using fr dirs by (simp add: w4_def h3)
  have run: "solvation_cal mk m c w = Inr (add_job mk c jd w5)"
    using jobs params w3 d4 old4 c5
    by (simp add: solvation_cal_def Let_def jd_def [symmetric])
  have manifest: "files w5 (jd @ [os_sep] @ ''system.json'') = Some (Json (sol_params m))"
    using wavecar_not_manifest [of jd jd] by (simp add: w5_def w4_def)
  have "add_job_calls (add_job mk c jd w5) = add_job_calls w @ [(c, jd)]"
    by (simp add: w5_def w4_def h3)
  moreover have "job_dir_list (heap (add_job mk c jd w5) c) = job_dir_list (heap w c) @ [jd]"
    using fr by (simp add: w5_def w4_def h3)
  moreover have "jd \<in> dirs (add_job mk c jd w5)" by simp
  moreover have "files (add_job mk c jd w5) (jd @ ''/system.json'') = Some (Json (sol_params m))"
    using manifest by (simp add: os_sep_def)
  moreover have "files (add_job mk c jd w5) (jd @ ''/WAVECAR'') = Some f"
    by (simp add: w5_def os_sep_def)
  ultimately show ?thesis
    using run unfolding jd_def by blast
qed

lemma w_two_more_simps:
  "files (w_two :: 'e world) ''p/WAVECAR'' = Some (Data ''wf'')"
  "files (w_two :: 'e world) ''./MeasurementSolvation/run_1/SOL'' = None"
  "files (w_two :: 'e world) ''.'' = None"
  "files (w_two :: 'e world) ''./MeasurementSolvation'' = None"
  "files (w_two :: 'e world) ''./MeasurementSolvation/run_1'' = None"
  "dirs (w_two :: 'e world) = {''p'', ''q''}"
  "job_dir_list h_two = []"
  by (simp_all add: w_two_def h_two_def)

lemma derived_run_1: "derived_dir ''./MeasurementSolvation'' ''run.1'' ''SOL'' = ''./MeasurementSolvation/run_1/SOL''"
  by (simp add: derived_dir_def replace_def os_sep_def)

lemma ancestors_run_1:
  "ancestors ''./MeasurementSolvation/run_1/SOL'' =
     [''.'', ''./MeasurementSolvation'', ''./MeasurementSolvation/run_1'']"
  by (simp add: ancestors_def os_sep_def)

theorem solvation_uses_first_prior_job_witness:
  "length (old_job_dir_list (heap (w_two :: unit world) 0)) = 2 \<and>
   raised (solvation_cal Job (m_sol [(''AB'', PInt 1)]) 0 (w_two :: unit world)) = None \<and>
   add_job_calls (final (solvation_cal Job (m_sol [(''AB'', PInt 1)]) 0 (w_two :: unit world))) =
     [(0, ''./MeasurementSolvation/run_1/SOL'')] \<and>
   files (final (solvation_cal Job (m_sol [(''AB'', PInt 1)]) 0 (w_two :: unit world)))
     ''./MeasurementSolvation/run_1/SOL/system.json'' = Some (Json [(''AB'', PInt 1)]) \<and>
   files (final (solvation_cal Job (m_sol [(''AB'', PInt 1)]) 0 (w_two :: unit world)))
     ''./MeasurementSolvation/run_1/SOL/WAVECAR'' = Some (Data ''wf'') \<and>
   raised (solvation_cal Job (m_sol []) 0 (w_two :: unit world)) = None \<and>
   add_job_calls (final (solvation_cal Job (m_sol []) 0 (w_two :: unit world))) =
     [(0, ''./MeasurementSolvation/run_1/SOL'')]"
proof -
  let ?w = "w_two :: unit world"
  have ab: "\<exists>w'. solvation_cal Job (m_sol [(''AB'', PInt 1)]) 0 ?w = Inr w' \<and>
           add_job_calls w' = add_job_calls ?w @
             [(0, derived_dir (job_dir (m_sol [(''AB'', PInt 1)])) (name (Job ''run.1'')) ''SOL'')] \<and>
           job_dir_list (heap w' 0) =
             job_dir_list (heap ?w 0) @
               [derived_dir (job_dir (m_sol [(''AB'', PInt 1)])) (name (Job ''run.1'')) ''SOL''] \<and>
           derived_dir (job_dir (m_sol [(''AB'', PInt 1)])) (name (Job ''run.1'')) ''SOL'' \<in> dirs w' \<and>
           files w' (derived_dir (job_dir (m_sol [(''AB'', PInt 1)])) (name (Job ''run.1'')) ''SOL''
                       @ ''/system.json'') =
             Some (Json (sol_params (m_sol [(''AB'', PInt 1)]))) \<and>
           files w' (derived_dir (job_dir (m_sol [(''AB'', PInt 1)])) (name (Job ''run.1'')) ''SOL''
                       @ ''/WAVECAR'') =
             Some (Data ''wf'')"
    by (rule solvation_uses_first_prior_job
          [where js = "[Job ''a/b'']" and ds = "[''q'']" and ?d0.0 = "''p''"])
       (simp_all add: m_sol_def w_two_simps w_two_more_simps derived_run_1 ancestors_run_1)
  have none: "\<exists>w'. solvation_cal Job (m_sol []) 0 ?w = Inr w' \<and>
           add_job_calls w' = add_job_calls ?w @
             [(0, derived_dir (job_dir (m_sol [])) (name (Job ''run.1'')) ''SOL'')] \<and>
           job_dir_list (heap w' 0) =
             job_dir_list (heap ?w 0) @
               [derived_dir (job_dir (m_sol [])) (name (Job ''run.1'')) ''SOL''] \<and>
           derived_dir (job_dir (m_sol [])) (name (Job ''run.1'')) ''SOL'' \<in> dirs w' \<and>
           files w' (derived_dir (job_dir (m_sol [])) (name (Job ''run.1'')) ''SOL''
                       @ ''/system.json'') =
             Some (Json (sol_params (m_sol []))) \<and>
           files w' (derived_dir (job_dir (m_sol [])) (name (Job ''run.1'')) ''SOL''
                       @ ''/WAVECAR'') =
             Some (Data ''wf'')"
    by (rule solvation_uses_first_prior_job
          [where js = "[Job ''a/b'']" and ds = "[''q'']" and ?d0.0 = "''p''"])
       (simp_all add: m_sol_def w_two_simps w_two_more_simps derived_run_1 ancestors_run_1)
  from ab none show ?thesis
    by (auto simp: m_sol_def w_two_simps w_two_more_simps derived_run_1)
qed

text \<open>
  The claim as stated fails: with an empty parameter set, the solvation derivation over
  an object with two prior jobs raises nothing, creates the directory, copies the
  wavefunction and registers a job.
\<close>

theorem solvation_multi_job_counterexample:
  "length (old_job_dir_list (heap (w_two :: unit world) 0)) = 2 \<and>
   raised (MeasurementSolvation_setup Job (m_sol []) (w_two :: unit world)) = None \<and>
   add_job_calls (final (MeasurementSolvation_setup Job (m_sol []) (w_two :: unit world))) =
     [(0, ''./MeasurementSolvation/run_1/SOL'')] \<and>
   ''./MeasurementSolvation/run_1/SOL''
      \<in> dirs (final (MeasurementSolvation_setup Job (m_sol []) (w_two :: unit world))) \<and>
   ''./MeasurementSolvation/run_1/SOL'' \<notin> dirs (w_two :: unit world) \<and>
   files (final (MeasurementSolvation_setup Job (m_sol []) (w_two :: unit world)))
     ''./MeasurementSolvation/run_1/SOL/WAVECAR'' = Some (Data ''wf'')"
  by (simp add: MeasurementSolvation_setup_def solvation_cal_def m_sol_def w_two_def h_two_def
        Let_def derived_dir_def replace_def os_sep_def path_exists_def dump_def copy_def
        makedirs_def ancestors_def dirname_def)

text \<open>
  Claim C7 fails on the code. With the default parameter set the loop over
  \<^verbatim>\<open>self.sol_params\<close> raises \<^verbatim>\<open>ValueError\<close> at the first key: \<^verbatim>\<open>LSOL\<close> is set, neither
  \<^verbatim>\<open>EB_K\<close> nor \<^verbatim>\<open>TAU\<close> is written. With the parameter set \<^verbatim>\<open>{'AB': 1}\<close> the step
  completes and has written \<^verbatim>\<open>incar['A'] = 'B'\<close> instead of \<^verbatim>\<open>incar['AB'] = 1\<close>.
\<close>

theorem solvation_params_not_written:
  "raised (MeasurementSolvation_setup Job (m_sol default_sol_params) (w_one :: unit world))
     = Some ValueError \<and>
   incar (heap (final (MeasurementSolvation_setup Job (m_sol default_sol_params)
      (w_one :: unit world))) 0) ''LSOL'' = Some (PStr ''.TRUE.'') \<and>
   incar (heap (final (MeasurementSolvation_setup Job (m_sol default_sol_params)
      (w_one :: unit world))) 0) ''EB_K'' = None \<and>
   incar (heap (final (MeasurementSolvation_setup Job (m_sol default_sol_params)
      (w_one :: unit world))) 0) ''TAU'' = None \<and>
   raised (MeasurementSolvation_setup Job (m_sol [(''AB'', PInt 1)]) (w_one :: unit world)) = None \<and>
   incar (heap (final (MeasurementSolvation_setup Job (m_sol [(''AB'', PInt 1)])
      (w_one :: unit world))) 0) ''AB'' = None \<and>
   incar (heap (final (MeasurementSolvation_setup Job (m_sol [(''AB'', PInt 1)])
      (w_one :: unit world))) 0) ''A'' = Some (PStr ''B'')"
  by (simp add: MeasurementSolvation_setup_def solvation_cal_def m_sol_def w_one_def w_two_def
        h_two_def default_sol_params_def
        Let_def derived_dir_def replace_def os_sep_def path_exists_def dump_def copy_def
        makedirs_def ancestors_def dirname_def)

section \<open>Collecting energies\<close>

lemma returned_simps [simp]:
  "returned (Inl x) = None"
  "returned (Inr (v, s)) = Some v"
  by (simp_all add: returned_def)

lemma energies_of_simps [simp]:
  "energies_of [] = []"
  "energies_of (None # es) = energies_of es"
  "energies_of (Some e # es) = e # energies_of es"
  by (simp_all add: energies_of_def)

lemma collect_eq:
  "collect jd es (energies, w) =
     (energies @ energies_of es,
      w\<lparr>logged := logged w @ map (Debug_energy jd) (energies_of es)\<rparr>)"
proof (induction es arbitrary: energies w)
  case Nil
  then show ?case by simp
next
  case (Cons e es)
  then show ?case by (cases e) (simp_all add: emit_def)
qed

lemma get_energy_loop_eq:
  assumes "MPINTVaspDrone ns" "BorgQueen ns = Some q"
  shows "get_energy_loop ns ds (energies, w) =
     Inr (energies @ concat (map (\<lambda>d. energies_of (q d)) ds),
          w\<lparr>logged := logged w @
               concat (map (\<lambda>d. map (Debug_energy d) (energies_of (q d))) ds)\<rparr>)"
proof (induction ds arbitrary: energies w)
  case Nil
  then show ?case by simp
next
  case (Cons d ds)
  show ?case
    using assms by (simp add: collect_eq Cons.IH)
qed

lemma length_concat_le_one:
  "\<forall>d \<in> set ds. length (f d) \<le> 1 \<Longrightarrow>
   length (concat (map f ds)) = length (filter (\<lambda>d. f d \<noteq> []) ds)"
proof (induction ds)
  case Nil
  then show ?case by simp
next
  case (Cons d ds)
  then have "length (f d) \<le> 1" by simp
  then have "length (f d) = (if f d = [] then 0 else 1)"
    by (cases "f d") auto
  with Cons show ?case by simp
qed

text \<open>
  Claim C8, as amended. With the collector names bound, \<^verbatim>\<open>get_energy\<close> returns, for
  every calibration object, the energies of all truthy records of all its current
  directories, in order, and logs one debug record per energy and nothing else: a
  directory without records adds nothing to the list or to the log and raises nothing.
  The length of the list is the number of directories with a record when no directory
  yields more than one.
\<close>

theorem get_energy_concatenates_records:
  assumes "MPINTVaspDrone ns" "BorgQueen ns = Some q"
  shows "get_energy ns c w =
           Inr (concat (map (\<lambda>d. energies_of (q d)) (job_dir_list (heap w c))),
                w\<lparr>logged := logged w @
                     concat (map (\<lambda>d. map (Debug_energy d) (energies_of (q d)))
                               (job_dir_list (heap w c)))\<rparr>) \<and>
         ((\<forall>d \<in> set (job_dir_list (heap w c)). length (energies_of (q d)) \<le> 1) \<longrightarrow>
            length (concat (map (\<lambda>d. energies_of (q d)) (job_dir_list (heap w c)))) =
            length (filter (\<lambda>d. energies_of (q d) \<noteq> []) (job_dir_list (heap w c))))"
  using assms by (simp add: get_energy_def get_energy_loop_eq length_concat_le_one)

lemma w_dirs_simps:
  "job_dir_list (heap (w_dirs :: 'e world) c) = [''d0'', ''d1'']"
  "logged (w_dirs :: 'e world) = []"
  by (simp_all add: w_dirs_def w_ran_def h_ran_def)

lemma q_two_simps:
  "q_two ''d0'' = []"
  "q_two ''d1'' = [Some (-3), Some (-4)]"
  by (simp_all add: q_two_def)

theorem get_energy_concatenates_records_witness:
  "MPINTVaspDrone ns_two \<and> BorgQueen ns_two = Some q_two \<and>
   returned (get_energy ns_two 0 w_dirs) = Some [-3, -4] \<and>
   logged (reached (get_energy ns_two 0 w_dirs)) = [Debug_energy ''d1'' (-3), Debug_energy ''d1'' (-4)]"
proof -
  have b: "MPINTVaspDrone ns_two" "BorgQueen ns_two = Some q_two"
    by (simp_all add: ns_two_def)
  from get_energy_concatenates_records [OF b, of 0 w_dirs] b show ?thesis
    by (simp add: w_dirs_simps q_two_simps)
qed

text \<open>
  The claim as stated fails: here two directories, one without records and one with
  two, give a list of length two, and the log does not mention the directory without
  records.
\<close>

theorem get_energy_length_counterexample:
  "returned (get_energy ns_two 0 w_dirs) = Some [-3, -4] \<and>
   length (filter (\<lambda>d. energies_of (q_two d) \<noteq> []) (job_dir_list (heap (w_dirs :: real world) 0))) = 1 \<and>
   logged (reached (get_energy ns_two 0 w_dirs)) = [Debug_energy ''d1'' (-3), Debug_energy ''d1'' (-4)]"
  by (simp add: get_energy_def ns_two_def w_dirs_simps q_two_simps emit_def)

section \<open>Binding energies\<close>

lemma get_energy_loop_heap:
  "get_energy_loop ns ds (energies, w) = Inr (energies', w') \<Longrightarrow> heap w' = heap w"
proof (induction ds arbitrary: energies w)
  case Nil
  then show ?case by simp
next
  case (Cons d ds)
  from Cons.prems obtain q where q: "BorgQueen ns = Some q" and
    rest: "get_energy_loop ns ds (collect d (q d) (energies, w)) = Inr (energies', w')"
    by (auto split: if_splits option.splits)
  from Cons.IH [OF rest [unfolded collect_eq]] show ?case by simp
qed

lemma get_energy_heap:
  "get_energy ns c w = Inr (energies, w') \<Longrightarrow> heap w' = heap w"
  unfolding get_energy_def by (rule get_energy_loop_heap)

lemma energies_by_bound:
  assumes "MPINTVaspDrone ns" "BorgQueen ns = Some q"
  shows "\<forall>c \<in> set cs. \<exists>k. keyf (heap w c) = Inr k \<Longrightarrow>
     \<exists>tbl' w'. energies_by keyf ns cs (tbl, w) = Inr (tbl', w') \<and> heap w' = heap w \<and>
        (\<forall>k. tbl' k = None \<longleftrightarrow> tbl k = None \<and> (\<forall>c \<in> set cs. keyf (heap w c) \<noteq> Inr k))"
proof (induction cs arbitrary: tbl w)
  case Nil
  then show ?case by simp
next
  case (Cons c cs)
  from Cons.prems obtain key where key: "keyf (heap w c) = Inr key" by auto
  have ge: "get_energy ns c w =
      Inr (concat (map (\<lambda>d. energies_of (q d)) (job_dir_list (heap w c))),
           w\<lparr>logged := logged w @
             concat (map (\<lambda>d. map (Debug_energy d) (energies_of (q d))) (job_dir_list (heap w c)))\<rparr>)"
    using assms by (simp add: get_energy_def get_energy_loop_eq)
  define en where "en = concat (map (\<lambda>d. energies_of (q d)) (job_dir_list (heap w c)))"
  define w1 where "w1 = w\<lparr>logged := logged w @
      concat (map (\<lambda>d. map (Debug_energy d) (energies_of (q d))) (job_dir_list (heap w c)))\<rparr>"
  have h1: "heap w1 = heap w" by (simp add: w1_def)
  have step: "energies_by keyf ns (c # cs) (tbl, w) = energies_by keyf ns cs (tbl(key \<mapsto> en), w1)"
    by (simp add: key ge en_def w1_def)
  from Cons.prems have "\<forall>x \<in> set cs. \<exists>k. keyf (heap w1 x) = Inr k" by (simp add: h1)
  from Cons.IH [OF this, of "tbl(key \<mapsto> en)"] obtain tbl' w' where
    r: "energies_by keyf ns cs (tbl(key \<mapsto> en), w1) = Inr (tbl', w')" "heap w' = heap w1"
       "\<forall>k. tbl' k = None \<longleftrightarrow> (tbl(key \<mapsto> en)) k = None \<and> (\<forall>c \<in> set cs. keyf (heap w1 c) \<noteq> Inr k)"
    by blast
  have "\<forall>k. tbl' k = None \<longleftrightarrow> tbl k = None \<and> (\<forall>x \<in> set (c # cs). keyf (heap w x) \<noteq> Inr k)"
    using r(3) key by (auto simp: h1)
  with r(1,2) step h1 show ?case by auto
qed


text \<open>
  Claim C5, as amended. With the collector names bound and the keys of all objects
  readable, when no slab object carries the facet of the first interface object, so
  that the slab table has no entry for its key, \<^verbatim>\<open>make_measurements\<close> stops with the
  \<^verbatim>\<open>KeyError\<close> of that key, raised by the table lookup itself ahead of any subtraction.
\<close>

theorem missing_slab_key_raises:
  assumes bound: "MPINTVaspDrone ns" "BorgQueen ns = Some q"
    and slabs: "\<forall>s \<in> set (cal_slabs m). \<exists>k. slab_key (heap w s) = Inr k"
    and ligands: "\<forall>l \<in> set (cal_ligands m). \<exists>k. ligand_key (heap w l) = Inr k"
    and first: "cal_interfaces m = c # cs"
    and ks: "slab_key (heap w c) = Inr ks"
    and kl: "ligand_key (heap w c) = Inr kl"
    and absent: "\<forall>s \<in> set (cal_slabs m). slab_key (heap w s) \<noteq> Inr ks"
  shows "raised (MeasurementInterface_make_measurements ns m w) = Some (KeyError ks)"
proof -
  from energies_by_bound [OF bound slabs, of Map.empty] obtain E_slabs w1 where
    s1: "energies_by slab_key ns (cal_slabs m) (Map.empty, w) = Inr (E_slabs, w1)" and
    h1: "heap w1 = heap w" and
    d1: "\<forall>k. E_slabs k = None \<longleftrightarrow> (\<forall>s \<in> set (cal_slabs m). slab_key (heap w s) \<noteq> Inr k)"
    by auto
  from ligands have "\<forall>l \<in> set (cal_ligands m). \<exists>k. ligand_key (heap w1 l) = Inr k"
    by (simp add: h1)
  from energies_by_bound [OF bound this, of Map.empty] obtain E_ligands w2 where
    s2: "energies_by ligand_key ns (cal_ligands m) (Map.empty, w1) = Inr (E_ligands, w2)" and
    h2: "heap w2 = heap w1"
    by auto
  obtain en w3 where ge: "get_energy ns c w2 = Inr (en, w3)"
    using bound by (simp add: get_energy_def get_energy_loop_eq)
  have none: "E_slabs ks = None"
    using d1 absent by simp
  have "binding_loop ns E_slabs E_ligands (c # cs) (Map.empty, E_binding ns, w2) =
          Inl (KeyError ks, w3)"
    using ks kl ge none by (simp add: h1 h2 binding_rhs_def)
  then show ?thesis
    using s1 s2 first by (simp add: MeasurementInterface_make_measurements_def)
qed

lemma w_meas_simps:
  "heap (w_meas :: 'e world) 0 = h_sys CalibrateSlab (Some [1, 0, 0]) None None ''s''"
  "heap (w_meas :: 'e world) 2 = h_sys CalibrateMolecule None (Some ''Ligand2'') None ''l''"
  "heap (w_meas :: 'e world) 3 =
     h_sys CalibrateInterface (Some [1, 0, 0]) (Some ''Ligand2'') (Some 2) ''i''"
  by (simp_all add: w_meas_def)

lemma str_list_100: "str_list [1, 0, 0] = ''[1, 0, 0]''"
  by (simp add: str_list_def str_int_def)

lemma m_meas_simps:
  "m_meas [2, 3] = \<lparr>cal_objs = [2, 3], job_dir = ''./MeasurementInterface'',
                     cal_slabs = [], cal_interfaces = [3], cal_ligands = [2]\<rparr>"
  "m_meas [0, 3] = \<lparr>cal_objs = [0, 3], job_dir = ''./MeasurementInterface'',
                     cal_slabs = [0], cal_interfaces = [3], cal_ligands = []\<rparr>"
  "m_meas [0, 2, 3] = \<lparr>cal_objs = [0, 2, 3], job_dir = ''./MeasurementInterface'',
                     cal_slabs = [0], cal_interfaces = [3], cal_ligands = [2]\<rparr>"
  by (simp_all add: m_meas_def isinstance_def w_meas_simps h_sys_def)

lemma keys_simps:
  "slab_key (h_sys k (Some [1, 0, 0]) lig n d) = Inr ''[1, 0, 0]''"
  "ligand_key (h_sys k hkl (Some ''Ligand2'') n d) = Inr ''Ligand2''"
  "ligand_key (h_sys k hkl None n d) = Inl (AttributeError ''ligand'')"
  by (simp_all add: slab_key_def ligand_key_def h_sys_def str_list_100)

theorem missing_slab_key_raises_witness:
  "cal_slabs (m_meas [2, 3]) = [] \<and> cal_interfaces (m_meas [2, 3]) = [3] \<and>
   slab_key (heap (w_meas :: real world) 3) = Inr ''[1, 0, 0]'' \<and>
   raised (MeasurementInterface_make_measurements ns_spec (m_meas [2, 3]) w_meas)
     = Some (KeyError ''[1, 0, 0]'')"
proof -
  have "raised (MeasurementInterface_make_measurements ns_spec (m_meas [2, 3]) w_meas)
     = Some (KeyError ''[1, 0, 0]'')"
    by (rule missing_slab_key_raises [where q = q_spec and c = 3 and cs = "[]" and kl = "''Ligand2''"])
       (simp_all add: ns_spec_def m_meas_simps w_meas_simps keys_simps)
  then show ?thesis
    by (simp add: m_meas_simps w_meas_simps keys_simps)
qed

text \<open>
  The claim as stated fails for the ligand table: with the slab measured and no ligand
  measured, the error is the \<^verbatim>\<open>TypeError\<close> of the subtraction of the slab energies,
  which is evaluated before the ligand table is looked up.
\<close>

theorem missing_ligand_key_counterexample:
  "cal_ligands (m_meas [0, 3]) = [] \<and> cal_interfaces (m_meas [0, 3]) = [3] \<and>
   ligand_key (heap (w_meas :: real world) 3) = Inr ''Ligand2'' \<and>
   raised (MeasurementInterface_make_measurements ns_spec (m_meas [0, 3]) w_meas) = Some TypeError"
  by (simp add: MeasurementInterface_make_measurements_def ns_spec_def m_meas_simps w_meas_simps
        slab_key_def ligand_key_def str_list_100 get_energy_def binding_rhs_def list_sub_def
        h_sys_def q_spec_def)

text \<open>
  Claim C2 fails on the code. On the example of the spec, with every name bound, the
  three energy lists are as the spec gives them and \<^verbatim>\<open>make_measurements\<close> raises
  \<^verbatim>\<open>TypeError\<close>: the tables hold lists and lists cannot be subtracted. In the namespace
  of the imported module it raises \<^verbatim>\<open>NameError\<close> in \<^verbatim>\<open>get_energy\<close> before that.
\<close>

theorem binding_energy_not_computed:
  "returned (get_energy ns_spec 3 w_meas) = Some [-10] \<and>
   returned (get_energy ns_spec 0 w_meas) = Some [-7] \<and>
   returned (get_energy ns_spec 2 w_meas) = Some [-1] \<and>
   Option.bind (system (heap (w_meas :: real world) 3)) n_ligands = Some 2 \<and>
   raised (MeasurementInterface_make_measurements ns_spec (m_meas [0, 2, 3]) w_meas)
     = Some TypeError \<and>
   raised (MeasurementInterface_make_measurements module_namespace (m_meas [0, 2, 3])
      (w_meas :: real world)) = Some (NameError ''MPINTVaspDrone'')"
  by (simp add: MeasurementInterface_make_measurements_def ns_spec_def module_namespace_def
        m_meas_simps w_meas_simps slab_key_def ligand_key_def str_list_100 get_energy_def
        binding_rhs_def list_sub_def h_sys_def q_spec_def)

section \<open>The paths of the new job directories and the interface manifests\<close>

lemma tag_hkl_frame [simp]:
  "heap (snd (tag_hkl c d w)) = heap w"
  "files (snd (tag_hkl c d w)) = files w"
  "dirs (snd (tag_hkl c d w)) = dirs w"
  "add_job_calls (snd (tag_hkl c d w)) = add_job_calls w"
  by (simp_all add: tag_hkl_def split: option.splits)

lemma tag_ligand_frame [simp]:
  "heap (snd (tag_ligand c d w)) = heap w"
  "files (snd (tag_ligand c d w)) = files w"
  "dirs (snd (tag_ligand c d w)) = dirs w"
  "add_job_calls (snd (tag_ligand c d w)) = add_job_calls w"
  by (simp_all add: tag_ligand_def split: option.splits)

lemma dump_frame:
  "dump d fname obj w = Inr w' \<Longrightarrow>
     heap w' = heap w \<and> dirs w' = dirs w \<and> add_job_calls w' = add_job_calls w"
  by (auto dest: dump_Inr)

lemma interface_job_Inr:
  assumes "interface_job mk m c i jdir d w = Inr (d', w')"
  shows "i < length (old_jobs (heap w c)) \<and>
         add_job_calls w' = add_job_calls w @
           [(c, derived_dir (job_dir m) (name (old_jobs (heap w c) ! i)) ''STATIC'')] \<and>
         (\<forall>x. old_jobs (heap w' x) = old_jobs (heap w x) \<and>
              old_job_dir_list (heap w' x) = old_job_dir_list (heap w x))"
proof -
  from assms have lt: "i < length (old_jobs (heap w c))"
    by (simp add: interface_job_def split: if_splits)
  define jd where "jd = derived_dir (job_dir m) (name (old_jobs (heap w c) ! i)) ''STATIC''"
  from assms lt obtain p where p: "files w (jdir @ [os_sep] @ ''CONTCAR'') = Some p"
    by (auto simp: interface_job_def Let_def Poscar_from_file_def split: option.splits)
  define w1 where "w1 = upd c (\<lambda>h. h\<lparr>poscar := Some p\<rparr>) w"
  define dw1 where "dw1 = (if c \<in> set (cal_slabs m) \<or> c \<in> set (cal_interfaces m)
                            then tag_hkl c d w1 else (d, w1))"
  define dw2 where "dw2 = (if c \<in> set (cal_interfaces m)
                            then tag_ligand c (fst dw1) (snd dw1) else dw1)"
  have run: "interface_job mk m c i jdir d w =
      (case (if \<not> path_exists (snd dw2) jd then makedirs jd (snd dw2) else Inr (snd dw2)) of
         Inl e \<Rightarrow> Inl e
       | Inr w4 \<Rightarrow>
           (case (if fst dw2 \<noteq> [] then dump jd ''system.json'' (fst dw2) w4 else Inr w4) of
              Inl e \<Rightarrow> Inl e
            | Inr w5 \<Rightarrow> Inr (fst dw2, add_job mk c jd w5)))"
    unfolding interface_job_def Let_def Poscar_from_file_def jd_def w1_def dw1_def dw2_def
    using lt p by (simp del: if_split cong: if_cong)
  from assms [unfolded run] obtain w4 where
    w4: "(if \<not> path_exists (snd dw2) jd then makedirs jd (snd dw2) else Inr (snd dw2)) = Inr w4"
    by (cases "if \<not> path_exists (snd dw2) jd then makedirs jd (snd dw2) else Inr (snd dw2)") auto
  from assms [unfolded run] w4 obtain w5 where
    w5: "(if fst dw2 \<noteq> [] then dump jd ''system.json'' (fst dw2) w4 else Inr w4) = Inr w5" and
    res: "w' = add_job mk c jd w5"
    by (cases "if fst dw2 \<noteq> [] then dump jd ''system.json'' (fst dw2) w4 else Inr w4") auto
  have f2: "heap (snd dw2) = heap w1" "add_job_calls (snd dw2) = add_job_calls w"
    by (simp_all add: dw2_def dw1_def w1_def)
  have f4: "heap w4 = heap w1" "add_job_calls w4 = add_job_calls w"
    using ensure_dir_Inr(1,3) [OF w4] f2 by simp_all
  from w5 have f5: "heap w5 = heap w4" "add_job_calls w5 = add_job_calls w4"
    by (auto dest: dump_frame split: if_splits)
  show ?thesis
    using lt by (simp add: res f5 f4 w1_def jd_def)
qed

lemma interface_jobs_Inr:
  "interface_jobs mk m c i ds (d, w) = Inr (d', w') \<Longrightarrow>
     add_job_calls w' = add_job_calls w @
        map (\<lambda>j. (c, derived_dir (job_dir m) (name j) ''STATIC''))
          (take (length ds) (drop i (old_jobs (heap w c)))) \<and>
     (\<forall>x. old_jobs (heap w' x) = old_jobs (heap w x) \<and>
          old_job_dir_list (heap w' x) = old_job_dir_list (heap w x))"
proof (induction ds arbitrary: i d w)
  case Nil
  then show ?case by simp
next
  case (Cons jdir jdirs)
  from Cons.prems obtain d1 w1 where
    one: "interface_job mk m c i jdir d w = Inr (d1, w1)" and
    rest: "interface_jobs mk m c (Suc i) jdirs (d1, w1) = Inr (d', w')"
    by (auto split: sum.splits)
  note a = interface_job_Inr [OF one]
  note b = Cons.IH [OF rest]
  have tk: "take (Suc (length jdirs)) (drop i (old_jobs (heap w c))) =
      old_jobs (heap w c) ! i # take (length jdirs) (drop (Suc i) (old_jobs (heap w c)))"
    using a by (simp add: Cons_nth_drop_Suc [symmetric])
  show ?case
    using a b by (simp add: tk)
qed

lemma interface_loop_Inr:
  "interface_loop mk m cs (d, w) = Inr (d', w') \<Longrightarrow>
     add_job_calls w' = add_job_calls w @
        concat (map (\<lambda>c. map (Pair c) (static_dirs (job_dir m) w c)) cs) \<and>
     (\<forall>x. old_jobs (heap w' x) = old_jobs (heap w x) \<and>
          old_job_dir_list (heap w' x) = old_job_dir_list (heap w x))"
proof (induction cs arbitrary: d w)
  case Nil
  then show ?case by simp
next
  case (Cons c cs)
  define w1 where "w1 = upd c (\<lambda>h. h\<lparr>incar := (incar h)(''NSW'' \<mapsto> PInt 0)\<rparr>) w"
  from Cons.prems obtain d2 w2 where
    inner: "interface_jobs mk m c 0 (old_job_dir_list (heap w1 c)) (d, w1) = Inr (d2, w2)" and
    rest: "interface_loop mk m cs (d2, w2) = Inr (d', w')"
    by (auto simp: Let_def w1_def split: sum.splits)
  have f1: "old_jobs (heap w1 x) = old_jobs (heap w x)"
      "old_job_dir_list (heap w1 x) = old_job_dir_list (heap w x)"
      "add_job_calls w1 = add_job_calls w" for x
    by (simp_all add: w1_def)
  note a = interface_jobs_Inr [OF inner, unfolded f1]
  have sd: "static_dirs (job_dir m) w2 x = static_dirs (job_dir m) w x" for x
    using a by (simp add: static_dirs_def)
  note b = Cons.IH [OF rest, unfolded sd]
  show ?case
    using a b by (simp add: static_dirs_def comp_def)
qed


lemma derived_dir_eq:
  "derived_dir base nm suffix =
     base @ ''/'' @ map (\<lambda>ch. if ch = CHR ''/'' \<or> ch = CHR ''.'' then CHR ''_'' else ch) nm
       @ ''/'' @ suffix"
  by (induction nm) (auto simp: derived_dir_def replace_def os_sep_def)

lemma raised_None:
  assumes "raised r = None"
  obtains s where "r = Inr s"
  using assms by (cases r) (auto simp: raised_def)

text \<open>
  Claim C9. Whenever a derivation step completes, the directories it handed to
  \<^verbatim>\<open>add_job\<close> are, in order: for the static and the interface step, for every
  calibration object and every index of a prior directory, the base directory, a
  separator, the name of the prior job at that index with every separator and every dot
  replaced by an underscore, a separator and \<^verbatim>\<open>STATIC\<close>; for the solvation step, for
  every calibration object, the same path built from its first prior job with \<^verbatim>\<open>SOL\<close>.
\<close>

theorem new_job_dir_paths:
  "(\<forall>w'. Measurement_setup mk m w = Inr w' \<longrightarrow>
      add_job_calls w' = add_job_calls w @
        concat (map (\<lambda>c. map (\<lambda>j. (c, job_dir m @ ''/'' @
                      map (\<lambda>ch. if ch = CHR ''/'' \<or> ch = CHR ''.'' then CHR ''_'' else ch) (name j)
                      @ ''/'' @ ''STATIC''))
                    (take (length (old_job_dir_list (heap w c))) (old_jobs (heap w c))))
                  (cal_objs m))) \<and>
   (\<forall>w'. MeasurementInterface_setup mk mi w = Inr w' \<longrightarrow>
      add_job_calls w' = add_job_calls w @
        concat (map (\<lambda>c. map (\<lambda>j. (c, job_dir mi @ ''/'' @
                      map (\<lambda>ch. if ch = CHR ''/'' \<or> ch = CHR ''.'' then CHR ''_'' else ch) (name j)
                      @ ''/'' @ ''STATIC''))
                    (take (length (old_job_dir_list (heap w c))) (old_jobs (heap w c))))
                  (cal_objs mi))) \<and>
   (\<forall>w'. MeasurementSolvation_setup mk ms w = Inr w' \<longrightarrow>
      add_job_calls w' = add_job_calls w @
        concat (map (\<lambda>c. map (\<lambda>j. (c, job_dir ms @ ''/'' @
                      map (\<lambda>ch. if ch = CHR ''/'' \<or> ch = CHR ''.'' then CHR ''_'' else ch) (name j)
                      @ ''/'' @ ''SOL''))
                    (take 1 (old_jobs (heap w c))))
                  (cal_objs ms)))"
proof (intro conjI allI impI)
  fix w'
  assume "Measurement_setup mk m w = Inr w'"
  from setup_loop_Inr [OF this [unfolded Measurement_setup_def]]
  show "add_job_calls w' = add_job_calls w @
        concat (map (\<lambda>c. map (\<lambda>j. (c, job_dir m @ ''/'' @
                      map (\<lambda>ch. if ch = CHR ''/'' \<or> ch = CHR ''.'' then CHR ''_'' else ch) (name j)
                      @ ''/'' @ ''STATIC''))
                    (take (length (old_job_dir_list (heap w c))) (old_jobs (heap w c))))
                  (cal_objs m))"
    by (simp add: static_dirs_def derived_dir_eq comp_def)
next
  fix w'
  assume "MeasurementInterface_setup mk mi w = Inr w'"
  then obtain d' where "interface_loop mk mi (cal_objs mi) ([], w) = Inr (d', w')"
    by (auto simp: MeasurementInterface_setup_def split: sum.splits)
  from interface_loop_Inr [OF this]
  show "add_job_calls w' = add_job_calls w @
        concat (map (\<lambda>c. map (\<lambda>j. (c, job_dir mi @ ''/'' @
                      map (\<lambda>ch. if ch = CHR ''/'' \<or> ch = CHR ''.'' then CHR ''_'' else ch) (name j)
                      @ ''/'' @ ''STATIC''))
                    (take (length (old_job_dir_list (heap w c))) (old_jobs (heap w c))))
                  (cal_objs mi))"
    by (simp add: static_dirs_def derived_dir_eq comp_def)
next
  fix w'
  assume "MeasurementSolvation_setup mk ms w = Inr w'"
  from solvation_loop_Inr [OF this [unfolded MeasurementSolvation_setup_def]]
  show "add_job_calls w' = add_job_calls w @
        concat (map (\<lambda>c. map (\<lambda>j. (c, job_dir ms @ ''/'' @
                      map (\<lambda>ch. if ch = CHR ''/'' \<or> ch = CHR ''.'' then CHR ''_'' else ch) (name j)
                      @ ''/'' @ ''SOL''))
                    (take 1 (old_jobs (heap w c))))
                  (cal_objs ms))"
    by (simp add: derived_dir_eq)
qed

lemma w_iface_simps:
  "heap (w_iface :: 'e world) 0 =
     h_prior CalibrateInterface (Some [1, 0, 0]) (Some ''H4N2'') ''iface'' ''pi''"
  "heap (w_iface :: 'e world) 2 = h_prior CalibrateSlab (Some [1, 1, 1]) None ''slab'' ''ps''"
  "heap (w_iface :: 'e world) 3 = h_prior CalibrateMolecule None (Some ''H4N2'') ''lig'' ''pl''"
  "add_job_calls (w_iface :: 'e world) = []"
  by (simp_all add: w_iface_def)

lemma m_iface_simps:
  "m_iface [0, 2, 3] = \<lparr>cal_objs = [0, 2, 3], job_dir = ''./MeasurementInterface'',
                        cal_slabs = [2], cal_interfaces = [0], cal_ligands = [3]\<rparr>"
  by (simp add: m_iface_def isinstance_def w_iface_simps h_prior_def)

lemma static_two_ok: "raised (Measurement_setup Job m_static (w_two :: unit world)) = None"
  by (simp add: Measurement_setup_def m_static_def w_two_def h_two_def Let_def
        Poscar_from_file_def os_sep_def)

lemma solvation_two_ok: "raised (MeasurementSolvation_setup Job (m_sol []) (w_two :: unit world)) = None"
  by (simp add: MeasurementSolvation_setup_def solvation_cal_def m_sol_def w_two_def h_two_def
        Let_def derived_dir_def replace_def os_sep_def path_exists_def dump_def copy_def
        makedirs_def ancestors_def dirname_def)

lemma interface_three_ok:
  "raised (MeasurementInterface_setup Job (m_iface [0, 2, 3]) (w_iface :: unit world)) = None"
  by (simp add: MeasurementInterface_setup_def interface_job_def m_iface_simps w_iface_def
        h_prior_def Let_def Poscar_from_file_def tag_hkl_def tag_ligand_def
        derived_dir_def replace_def os_sep_def path_exists_def dump_def makedirs_def
        ancestors_def)

theorem new_job_dir_paths_witness:
  "add_job_calls (final (Measurement_setup Job m_static (w_two :: unit world))) =
     [(0, ''./Measurement/run_1/STATIC''), (0, ''./Measurement/a_b/STATIC'')] \<and>
   add_job_calls (final (MeasurementInterface_setup Job (m_iface [0, 2, 3]) (w_iface :: unit world))) =
     [(0, ''./MeasurementInterface/iface/STATIC''), (2, ''./MeasurementInterface/slab/STATIC''),
      (3, ''./MeasurementInterface/lig/STATIC'')] \<and>
   add_job_calls (final (MeasurementSolvation_setup Job (m_sol []) (w_two :: unit world))) =
     [(0, ''./MeasurementSolvation/run_1/SOL'')]"
proof -
  note t = new_job_dir_paths [of Job m_static "w_two :: unit world" "m_iface [0, 2, 3]" "m_sol []"]
  note t2 = new_job_dir_paths [of Job m_static "w_iface :: unit world" "m_iface [0, 2, 3]" "m_sol []"]
  obtain w1 where w1: "Measurement_setup Job m_static (w_two :: unit world) = Inr w1"
    using static_two_ok by (rule raised_None)
  obtain w2 where
    w2: "MeasurementInterface_setup Job (m_iface [0, 2, 3]) (w_iface :: unit world) = Inr w2"
    using interface_three_ok by (rule raised_None)
  obtain w3 where w3: "MeasurementSolvation_setup Job (m_sol []) (w_two :: unit world) = Inr w3"
    using solvation_two_ok by (rule raised_None)
  from t w1 have "add_job_calls w1 =
     [(0, ''./Measurement/run_1/STATIC''), (0, ''./Measurement/a_b/STATIC'')]"
    by (simp add: m_static_def w_two_simps)
  moreover from t2 w2 have "add_job_calls w2 =
     [(0, ''./MeasurementInterface/iface/STATIC''), (2, ''./MeasurementInterface/slab/STATIC''),
      (3, ''./MeasurementInterface/lig/STATIC'')]"
    by (simp add: m_iface_simps w_iface_simps h_prior_def)
  moreover from t w3 have "add_job_calls w3 = [(0, ''./MeasurementSolvation/run_1/SOL'')]"
    by (simp add: m_sol_def w_two_simps)
  ultimately show ?thesis
    using w1 w2 w3 by simp
qed


text \<open>
  Claim C10 fails on the code. Over the interface, the slab and the ligand object, in
  this order, the step completes; the manifest of the interface job is as claimed, but
  the manifest of the slab job carries the ligand of the interface, and a manifest is
  written for the ligand job, with the facet of the slab and the ligand of the
  interface: \<^verbatim>\<open>d\<close> is never emptied between calibration objects.
\<close>

theorem manifest_keeps_earlier_identities:
  "kind (heap (w_iface :: unit world) 0) = CalibrateInterface \<and>
   kind (heap (w_iface :: unit world) 2) = CalibrateSlab \<and>
   kind (heap (w_iface :: unit world) 3) = CalibrateMolecule \<and>
   (case MeasurementInterface_setup Job (m_iface [0, 2, 3]) (w_iface :: unit world) of
      Inl _ \<Rightarrow> False
    | Inr w' \<Rightarrow>
        files w' ''./MeasurementInterface/iface/STATIC/system.json'' =
          Some (Json [(''hkl'', PInts [1, 0, 0]), (''ligand'', PStr ''H4N2'')]) \<and>
        files w' ''./MeasurementInterface/slab/STATIC/system.json'' =
          Some (Json [(''hkl'', PInts [1, 1, 1]), (''ligand'', PStr ''H4N2'')]) \<and>
        files w' ''./MeasurementInterface/lig/STATIC/system.json'' =
          Some (Json [(''hkl'', PInts [1, 1, 1]), (''ligand'', PStr ''H4N2'')]))"
  by (simp add: MeasurementInterface_setup_def interface_job_def m_iface_simps w_iface_def
        h_prior_def Let_def Poscar_from_file_def tag_hkl_def tag_ligand_def
        derived_dir_def replace_def os_sep_def path_exists_def dump_def makedirs_def
        ancestors_def)

end
